theory Spec2Isabelle
  imports Complex_Main "HOL-Library.Char_ord" "HOL-Library.List_Lexorder" "HOL-Library.Multiset"
    "HOL-Library.Log_Nat"
begin

section \<open>Python string and number helpers\<close>

text \<open>
  The modules are Python 2 (\<^verbatim>\<open>options.iteritems()\<close>): a \<^verbatim>\<open>str\<close> is a byte string,
  modelled as \<^typ>\<open>string\<close>; integers are unbounded, modelled as \<^typ>\<open>int\<close>.
\<close>

text \<open>\<^verbatim>\<open>s.startswith(p)\<close>\<close>

definition startswith :: "string \<Rightarrow> string \<Rightarrow> bool" where
  "startswith s p = (take (length p) s = p)"

text \<open>\<^verbatim>\<open>sub in s\<close> on strings: \<^verbatim>\<open>sub\<close> occurs as a contiguous substring of \<^verbatim>\<open>s\<close>.\<close>

fun contains :: "string \<Rightarrow> string \<Rightarrow> bool" where
  "contains sub [] = (sub = [])"
| "contains sub (c # cs) = (startswith (c # cs) sub \<or> contains sub cs)"

text \<open>\<^verbatim>\<open>s.strip()\<close>: removes leading and trailing ASCII whitespace.\<close>

definition is_space :: "char \<Rightarrow> bool" where
  "is_space c = (c = CHR '' '' \<or> c = CHR 0x09 \<or> c = CHR 0x0A \<or> c = CHR 0x0B
                 \<or> c = CHR 0x0C \<or> c = CHR 0x0D)"

definition strip :: "string \<Rightarrow> string" where
  "strip s = rev (dropWhile is_space (rev (dropWhile is_space s)))"

text \<open>\<^verbatim>\<open>s.split(sep)\<close> for a one-character separator: always at least one field.\<close>

fun split_on :: "char \<Rightarrow> string \<Rightarrow> string list" where
  "split_on sep [] = [[]]"
| "split_on sep (c # cs) =
     (if c = sep then [] # split_on sep cs
      else (case split_on sep cs of
              w # ws \<Rightarrow> (c # w) # ws
            | [] \<Rightarrow> [[c]]))"

text \<open>\<^verbatim>\<open>"%d" % n\<close>: the decimal numeral of an integer.\<close>

definition digit_char :: "nat \<Rightarrow> char" where
  "digit_char d = char_of (48 + d)"

fun str_nat :: "nat \<Rightarrow> string" where
  "str_nat n = (if n < 10 then [digit_char n] else str_nat (n div 10) @ [digit_char (n mod 10)])"

declare str_nat.simps [simp del]

definition fmt_d :: "int \<Rightarrow> string" where
  "fmt_d i = (if i < 0 then CHR ''-'' # str_nat (nat (- i)) else str_nat (nat i))"

text \<open>
  A Python \<^verbatim>\<open>float\<close> is an IEEE 754 binary64 number. A finite one is the rational it denotes;
  the two infinities are one value, since every use below treats them alike. (NaN does not
  arise: the only division has a finite, non-zero divisor.)
\<close>

datatype double = Finite rat | Infinite

text \<open>The exponent of a positive rational: the \<open>e\<close> with \<open>2\<^sup>e \<le> x < 2\<^sup>e\<^sup>+\<^sup>1\<close>.\<close>

definition floor_log2 :: "rat \<Rightarrow> int" where
  "floor_log2 x = (case quotient_of x of (a, b) \<Rightarrow>
      let e = bitlen a - bitlen b in if 2 powi e \<le> x then e else e - 1)"

text \<open>The nearest integer, a tie going to the even one.\<close>

definition round_half_even :: "rat \<Rightarrow> int" where
  "round_half_even x = (let n = \<lfloor>x\<rfloor>; r = x - of_int n in
     if r < 1 / 2 then n else if 1 / 2 < r then n + 1 else if even n then n else n + 1)"

text \<open>
  Rounding of an exact result to binary64 in the default mode (to nearest, ties to even): 53
  significant bits, the exponent no smaller than that of the subnormals, and infinity from
  \<open>2\<^sup>1\<^sup>0\<^sup>2\<^sup>4\<close> on.
\<close>

definition to_double :: "rat \<Rightarrow> double" where
  "to_double x = (if x = 0 then Finite 0 else
     let e = max (floor_log2 \<bar>x\<bar>) (- 1022);
         ulp = 2 powi (e - 52);
         y = of_int (round_half_even (\<bar>x\<bar> / ulp)) * ulp
     in if 2 powi 1024 \<le> y then Infinite else Finite (sgn x * y))"

text \<open>
  \<^verbatim>\<open>round(x)\<close> of a finite float, read as an integer: Python 2 rounds to the nearest integer,
  halves away from zero; the result is computed from the exact value of \<^verbatim>\<open>x\<close>.
\<close>

definition py_round :: "rat \<Rightarrow> int" where
  "py_round x = (if 0 \<le> x then \<lfloor>x + 1 / 2\<rfloor> else \<lceil>x - 1 / 2\<rceil>)"

section \<open>SystemBuildMsdosPartitions: data model\<close>

text \<open>Exceptions raised inside the module or by its collaborators.\<close>

datatype exn =
    ValueError | CalledProcessError | SystemError | IndexError | ZeroDivisionError
  | KeyError | TypeError | OverflowError

text \<open>
  Every way \<^verbatim>\<open>_doPartitioning\<close> ends other than \<^verbatim>\<open>self.log.passed()\<close>: the
  \<^verbatim>\<open>self.log.failed(); return None\<close> exits, named after their error message, and an exception
  that no \<^verbatim>\<open>except\<close> clause of the method catches.
\<close>

datatype failure =
    AlreadyPartitioned      \<comment> \<open>"Parititions have already been defined for disk"\<close>
  | LogicalNotAllowed       \<comment> \<open>"Logical volumes are not allowed with type"\<close>
  | BadLogicalFormat        \<comment> \<open>"format required: <ex>:<part>L"\<close>
  | BadExtendedFormat       \<comment> \<open>"format required: <ex>E"\<close>
  | TooManyPrimaries        \<comment> \<open>"partition tables may only have 4 primary and extended"\<close>
  | SecondExtended          \<comment> \<open>"The disk can only have one extended partition"\<close>
  | CreationFailed          \<comment> \<open>\<^verbatim>\<open>except ValueError\<close>: "Partition creation failed"\<close>
  | ShellCallFailed         \<comment> \<open>\<^verbatim>\<open>except subprocess.CalledProcessError\<close>: "shell call failed"\<close>
  | Uncaught exn            \<comment> \<open>the exception leaves \<^verbatim>\<open>_doPartitioning\<close>\<close>

text \<open>The \<^verbatim>\<open>self.log.warning\<close> calls, with the values they format.\<close>

datatype warning =
    TooSmall string          \<comment> \<open>"The requested partition was too small (%s)"\<close>
  | PartTypeNotSet           \<comment> \<open>"Did not successfully set the requested partition type"\<close>
  | PrimaryTruncated int     \<comment> \<open>"Primary partition was truncated, %d%% beyond the end of the disk"\<close>
  | ExtendedTruncated int    \<comment> \<open>"Extended partition was truncated, %d%% beyond the end of the disk"\<close>
  | LogicalTruncated int     \<comment> \<open>"Logical partition was truncated, %d%% beyond the extended partition"\<close>
  | PartProbeFailed          \<comment> \<open>"Part probe failed"\<close>
  | SettleFailed             \<comment> \<open>"settle failed"\<close>
  | SwapInitFailed string    \<comment> \<open>"The swap, '%s', could not be initialized"\<close>

text \<open>An entry of \<^verbatim>\<open>diskEntry['partitions']\<close>: the keys number, size, device, fstab-id.\<close>

record part_record =
  number :: int
  part_size :: string
  device :: string
  fstab_id :: "string option"

text \<open>The disk's entry in the system record, written by an earlier section.\<close>

record disk_entry =
  disk_device :: string
  disk_size :: int
  disk_fstab_id :: string
  disk_partitions :: "(string \<rightharpoonup> part_record) option"
  disk_swaps :: "(string \<times> part_record) list option"

text \<open>
  The class constants that \<^verbatim>\<open>SystemBuildGptPartitions\<close> overrides, and the command of its
  override of \<^verbatim>\<open>_editPartitionWithSfdisk\<close> (device, number, \<^verbatim>\<open>partition[3]\<close>).
\<close>

record policy =
  PART_TYPE :: string
  PART_PRIMARY_PARTITIONS :: int
  PART_LOGICAL_EXTENDED_ALLOWED :: bool
  PART_FIRST_START :: string
  edit_command :: "string \<Rightarrow> int \<Rightarrow> string \<Rightarrow> string list"

definition msdos :: policy where
  "msdos = \<lparr> PART_TYPE = ''msdos'', PART_PRIMARY_PARTITIONS = 4,
     PART_LOGICAL_EXTENDED_ALLOWED = True, PART_FIRST_START = ''2048s'',
     edit_command = (\<lambda>dev n t. [''sudo'', ''sfdisk'', ''--part-type'', dev, fmt_d n, t]) \<rparr>"


definition PART_FSTYPES :: "string \<rightharpoonup> string" where
  "PART_FSTYPES = map_of
     [(''ext2'', ''ext2''), (''linux'', ''ext2''), (''fat16'', ''fat16''), (''fat32'', ''fat32''),
      (''vfat'', ''fat32''), (''HFS'', ''HFS''), (''NTFS'', ''NTFS''),
      (''linux-swap'', ''linux-swap''), (''reiserfs'', ''reiserfs''), (''ufs'', ''ufs'')]"

text \<open>
  The fields of \<^verbatim>\<open>self\<close> that \<^verbatim>\<open>_doPartitioning\<close> sets, its local counters \<^verbatim>\<open>primary\<close> and
  \<^verbatim>\<open>logical\<close>, and two logs: the subprocess commands issued, in order, and the warnings.
  (The locals \<^verbatim>\<open>extended\<close> and \<^verbatim>\<open>extension\<close> are written and never read.)
\<close>

record self_state =
  swaps :: "(string \<times> int \<times> string list) list"
  startPercent :: int
  disksize :: int
  extensionStart :: int
  extensionEnd :: int
  partEntry :: "string \<rightharpoonup> part_record"
  primary :: int
  logical :: int
  calls :: "string list list"
  warnings :: "warning list"

text \<open>
  What the module does not decide: \<^verbatim>\<open>systemInstance._getSizeInBytes\<close> (defined by the
  SystemBuild section, outside this library's partition modules) and the exit status of each
  command, which may depend on the commands run before it.
\<close>

type_synonym size_parser = "string \<Rightarrow> exn + int"
type_synonym runner = "string list list \<Rightarrow> string list \<Rightarrow> int"

definition log_warning :: "warning \<Rightarrow> self_state \<Rightarrow> self_state" where
  "log_warning w s = s\<lparr>warnings := warnings s @ [w]\<rparr>"

text \<open>\<^verbatim>\<open>subprocess.call\<close>: runs the command and returns its exit status.\<close>

definition subprocess_call :: "runner \<Rightarrow> string list \<Rightarrow> self_state \<Rightarrow> int \<times> self_state" where
  "subprocess_call run c s = (run (calls s) c, s\<lparr>calls := calls s @ [c]\<rparr>)"

text \<open>\<^verbatim>\<open>subprocess.check_call\<close>: raises \<^verbatim>\<open>CalledProcessError\<close> on a non-zero exit status.\<close>

definition subprocess_check_call ::
  "runner \<Rightarrow> string list \<Rightarrow> self_state \<Rightarrow> exn option \<times> self_state" where
  "subprocess_check_call run c s =
     (if run (calls s) c \<noteq> 0 then Some CalledProcessError else None, s\<lparr>calls := calls s @ [c]\<rparr>)"

section \<open>SystemBuildMsdosPartitions: operations\<close>

text \<open>
  \<^verbatim>\<open>requestedSize*100.0/self.disksize\<close>, on integers: each integer is converted to a float
  (\<^verbatim>\<open>OverflowError\<close> when it is too large), the product and the quotient are rounded to a float
  each, and a zero divisor raises \<^verbatim>\<open>ZeroDivisionError\<close>. A product that has overflowed to
  infinity stays infinite when divided.
\<close>

definition requested_ratio :: "int \<Rightarrow> int \<Rightarrow> exn + double" where
  "requested_ratio requestedSize diskSize =
     (case to_double (of_int requestedSize) of
        Infinite \<Rightarrow> Inl OverflowError
      | Finite a \<Rightarrow>
          (case to_double (of_int diskSize) of
             Infinite \<Rightarrow> Inl OverflowError
           | Finite d \<Rightarrow>
               if d = 0 then Inl ZeroDivisionError
               else (case to_double (a * 100) of
                       Infinite \<Rightarrow> Inr Infinite
                     | Finite p \<Rightarrow> Inr (to_double (p / d)))))"

text \<open>
  \<^verbatim>\<open>_getRequestedPercentage\<close>. \<^verbatim>\<open>round\<close> leaves an infinity as it is and \<^verbatim>\<open>int\<close> of an
  infinity raises \<^verbatim>\<open>OverflowError\<close>.
\<close>

definition getRequestedPercentage ::
  "size_parser \<Rightarrow> string \<Rightarrow> self_state \<Rightarrow> (exn + int) \<times> self_state" where
  "getRequestedPercentage getSizeInBytes sz s =
     (case getSizeInBytes sz of
        Inl e \<Rightarrow> (Inl e, s)
      | Inr requestedSize \<Rightarrow>
          (case requested_ratio requestedSize (disksize s) of
             Inl e \<Rightarrow> (Inl e, s)
           | Inr Infinite \<Rightarrow> (Inl OverflowError, s)
           | Inr (Finite x) \<Rightarrow>
               let result = py_round x
               in if result = 0 then (Inr 1, log_warning (TooSmall sz) s)
                  else (Inr result, s)))"

definition editPartitionWithSfdisk ::
  "policy \<Rightarrow> runner \<Rightarrow> string \<Rightarrow> int \<Rightarrow> string list \<Rightarrow> self_state \<Rightarrow> self_state" where
  "editPartitionWithSfdisk pol run dev num part s =
     (case subprocess_call run (edit_command pol dev num (part ! 3)) s of
        (result, s') \<Rightarrow> if result \<noteq> 0 then log_warning PartTypeNotSet s' else s')"

text \<open>The command of the loop \<^verbatim>\<open>for flag in partition[4:]\<close> of \<^verbatim>\<open>_createNextPartition\<close>.\<close>

definition flag_command :: "string \<Rightarrow> int \<Rightarrow> string \<Rightarrow> string list" where
  "flag_command dev num flag =
     [''sudo'', ''parted'', ''-s'', dev, ''--'', ''set'', fmt_d num, flag, ''on'']"

fun set_flags ::
  "runner \<Rightarrow> string \<Rightarrow> int \<Rightarrow> string list \<Rightarrow> self_state \<Rightarrow> exn option \<times> self_state" where
  "set_flags run dev num [] s = (None, s)"
| "set_flags run dev num (flag # flags) s =
     (case subprocess_check_call run (flag_command dev num flag) s of
        (Some e, s') \<Rightarrow> (Some e, s')
      | (None, s') \<Rightarrow> set_flags run dev num flags s')"

text \<open>\<^verbatim>\<open>_createNextPartition\<close> from the \<^verbatim>\<open>mkpart\<close> call on.\<close>

definition createNextPartition_calls ::
  "policy \<Rightarrow> runner \<Rightarrow> string \<Rightarrow> int \<Rightarrow> string \<Rightarrow> string list \<Rightarrow> int \<Rightarrow> int \<Rightarrow>
   string \<Rightarrow> bool \<Rightarrow> string list \<Rightarrow> self_state \<Rightarrow> exn option \<times> self_state" where
  "createNextPartition_calls pol run dev num parttype part start en
       fstype callsfdisk command_specifics s =
     (let startstr = (if start = 0 then PART_FIRST_START pol else fmt_d start @ ''%'')
      in case subprocess_check_call run
                ([''sudo'', ''parted'', ''-s'', ''-a'', ''optimal'', dev, ''--'', ''mkpart'', parttype]
                 @ command_specifics @ [startstr, fmt_d en @ ''%'']) s of
           (Some e, s1) \<Rightarrow> (Some e, s1)
         | (None, s1) \<Rightarrow>
             (case subprocess_call run
                     [''sudo'', ''parted'', ''-s'', dev, ''--'', ''name'', fmt_d num, part ! 0] s1 of
                (_, s2) \<Rightarrow>
                  (case (if length part > 4 then set_flags run dev num (drop 4 part) s2
                         else (None, s2)) of
                     (Some e, s3) \<Rightarrow> (Some e, s3)
                   | (None, s3) \<Rightarrow>
                       (let s4 = (if callsfdisk
                                  then editPartitionWithSfdisk pol run dev num part s3
                                  else s3)
                        in (None, if fstype = ''linux-swap''
                                  then s4\<lparr>swaps := swaps s4 @ [(dev, num, part)]\<rparr>
                                  else s4)))))"

text \<open>
  \<^verbatim>\<open>_createNextPartition\<close>: the type is resolved first; \<^verbatim>\<open>partition[3]\<close> is read unless the
  partition is extended, and raises \<^verbatim>\<open>IndexError\<close> when the declaration has no type field.
\<close>

definition createNextPartition ::
  "policy \<Rightarrow> runner \<Rightarrow> string \<Rightarrow> int \<Rightarrow> string \<Rightarrow> string list \<Rightarrow> int \<Rightarrow> int \<Rightarrow>
   self_state \<Rightarrow> exn option \<times> self_state" where
  "createNextPartition pol run dev num parttype part start en s =
     (if parttype = ''extended''
      then createNextPartition_calls pol run dev num parttype part start en ''ext2'' False [] s
      else if length part < 4 then (Some IndexError, s)
      else (case PART_FSTYPES (part ! 3) of
              Some fstype \<Rightarrow>
                createNextPartition_calls pol run dev num parttype part start en
                  fstype False [fstype] s
            | None \<Rightarrow>
                createNextPartition_calls pol run dev num parttype part start en
                  ''ext2'' True [''ext2''] s))"

definition createPrimaryPartition ::
  "policy \<Rightarrow> size_parser \<Rightarrow> runner \<Rightarrow> string \<Rightarrow> int \<Rightarrow> string list \<Rightarrow> self_state \<Rightarrow>
   exn option \<times> self_state" where
  "createPrimaryPartition pol getSizeInBytes run dev num part s =
     (if length part < 3 then (Some IndexError, s)
      else case getRequestedPercentage getSizeInBytes (part ! 2) s of
        (Inl e, s1) \<Rightarrow> (Some e, s1)
      | (Inr requestedPercent, s1) \<Rightarrow>
          (let start = startPercent s1;
               en0 = start + requestedPercent;
               s2 = (if en0 > 100 then log_warning (PrimaryTruncated (en0 - 100)) s1 else s1);
               en = (if en0 > 100 then 100 else en0)
           in case createNextPartition pol run dev num ''primary'' part start en s2 of
                (Some e, s3) \<Rightarrow> (Some e, s3)
              | (None, s3) \<Rightarrow> (None, s3\<lparr>startPercent := en\<rparr>)))"

definition createExtendedPartition ::
  "policy \<Rightarrow> size_parser \<Rightarrow> runner \<Rightarrow> string \<Rightarrow> int \<Rightarrow> string list \<Rightarrow> self_state \<Rightarrow>
   exn option \<times> self_state" where
  "createExtendedPartition pol getSizeInBytes run dev num part s =
     (if length part < 3 then (Some IndexError, s)
      else case getRequestedPercentage getSizeInBytes (part ! 2) s of
        (Inl e, s1) \<Rightarrow> (Some e, s1)
      | (Inr requestedPercent, s1) \<Rightarrow>
          (let start = startPercent s1;
               en0 = start + requestedPercent;
               s2 = (if en0 > 100 then log_warning (ExtendedTruncated (100 - en0)) s1 else s1);
               en = (if en0 > 100 then 100 else en0)
           in case createNextPartition pol run dev num ''extended'' part start en s2 of
                (Some e, s3) \<Rightarrow> (Some e, s3)
              | (None, s3) \<Rightarrow> (None, s3\<lparr>extensionStart := start, extensionEnd := en\<rparr>)))"

definition createLogicalPartition ::
  "policy \<Rightarrow> size_parser \<Rightarrow> runner \<Rightarrow> string \<Rightarrow> int \<Rightarrow> string list \<Rightarrow> self_state \<Rightarrow>
   exn option \<times> self_state" where
  "createLogicalPartition pol getSizeInBytes run dev num part s =
     (if extensionStart s = - 1 then (Some SystemError, s)
      else if length part < 3 then (Some IndexError, s)
      else case getRequestedPercentage getSizeInBytes (part ! 2) s of
        (Inl e, s1) \<Rightarrow> (Some e, s1)
      | (Inr requestedPercent, s1) \<Rightarrow>
          (let start = extensionStart s1;
               en0 = start + requestedPercent;
               s2 = (if en0 > extensionEnd s1
                     then log_warning (LogicalTruncated (extensionEnd s1 - en0)) s1 else s1);
               en = (if en0 > extensionEnd s1 then extensionEnd s1 else en0)
           in case createNextPartition pol run dev num ''logical'' part start en s2 of
                (Some e, s3) \<Rightarrow> (Some e, s3)
              | (None, s3) \<Rightarrow> (None, s3\<lparr>extensionStart := en\<rparr>)))"

text \<open>
  The dictionary that \<^verbatim>\<open>_createPartitionEntry\<close> stores; every caller leaves \<^verbatim>\<open>partFstabId\<close>
  at its default \<^verbatim>\<open>None\<close>, and it stays \<^verbatim>\<open>None\<close> when the disk's fstab-id contains \<^verbatim>\<open>=\<close>.
\<close>

definition partition_record :: "string list \<Rightarrow> int \<Rightarrow> string \<Rightarrow> string \<Rightarrow> part_record" where
  "partition_record part num dev diskFstabId =
     (let fulldevstring =
            (if num > 0 then dev @ (if contains ''loop'' dev then ''p'' else []) @ fmt_d num
             else dev);
          fullpartid =
            (if num > 0
             then diskFstabId @ (if contains ''loop'' diskFstabId then ''p'' else []) @ fmt_d num
             else diskFstabId);
          partFstabId = (if \<not> contains ''='' diskFstabId then Some fullpartid else None)
      in \<lparr> number = num, part_size = part ! 2, device = fulldevstring, fstab_id = partFstabId \<rparr>)"

text \<open>
  \<^verbatim>\<open>_createPartitionEntry\<close>: \<^verbatim>\<open>part[2]\<close> raises \<^verbatim>\<open>IndexError\<close> when the declaration has no
  size field.
\<close>

definition createPartitionEntry ::
  "string list \<Rightarrow> int \<Rightarrow> string \<Rightarrow> string \<Rightarrow> self_state \<Rightarrow> exn option \<times> self_state" where
  "createPartitionEntry part num dev diskFstabId s =
     (if length part < 3 then (Some IndexError, s)
      else (None, s\<lparr>partEntry :=
                       (partEntry s)(part ! 0 \<mapsto> partition_record part num dev diskFstabId)\<rparr>))"

text \<open>
  The two \<^verbatim>\<open>except\<close> clauses around the body of the loop over the declarations: a
  \<^verbatim>\<open>ValueError\<close> and a \<^verbatim>\<open>CalledProcessError\<close> end in \<^verbatim>\<open>self.log.failed(); return None\<close>,
  any other exception is not caught.
\<close>

fun handle_exn :: "exn \<Rightarrow> failure" where
  "handle_exn ValueError = CreationFailed"
| "handle_exn CalledProcessError = ShellCallFailed"
| "handle_exn e = Uncaught e"

text \<open>The branch \<^verbatim>\<open>part[1][-1] == 'L'\<close> of the loop body.\<close>

definition process_logical ::
  "policy \<Rightarrow> size_parser \<Rightarrow> runner \<Rightarrow> bool \<Rightarrow> disk_entry \<Rightarrow> string list \<Rightarrow> self_state \<Rightarrow>
   failure option \<times> self_state" where
  "process_logical pol getSizeInBytes run build diskEntry part s =
     (if \<not> PART_LOGICAL_EXTENDED_ALLOWED pol then (Some LogicalNotAllowed, s)
      else if length (part ! 1) < 4 \<or> part ! 1 ! 1 \<noteq> CHR ''E'' \<or> part ! 1 ! 2 \<noteq> CHR '':''
      then (Some BadLogicalFormat, s)
      else case (if build
                 then createLogicalPartition pol getSizeInBytes run (disk_device diskEntry)
                        (logical s) part s
                 else (None, s)) of
        (Some e, s1) \<Rightarrow> (Some (handle_exn e), s1)
      | (None, s1) \<Rightarrow>
          (case createPartitionEntry part (logical s1) (disk_device diskEntry)
                  (disk_fstab_id diskEntry) s1 of
             (Some e, s2) \<Rightarrow> (Some (handle_exn e), s2)
           | (None, s2) \<Rightarrow> (None, s2\<lparr>logical := logical s2 + 1\<rparr>)))"

text \<open>The branch \<^verbatim>\<open>part[1][-1] == 'E'\<close>.\<close>

definition process_extended ::
  "policy \<Rightarrow> size_parser \<Rightarrow> runner \<Rightarrow> bool \<Rightarrow> disk_entry \<Rightarrow> string list \<Rightarrow> self_state \<Rightarrow>
   failure option \<times> self_state" where
  "process_extended pol getSizeInBytes run build diskEntry part s =
     (if \<not> PART_LOGICAL_EXTENDED_ALLOWED pol then (Some LogicalNotAllowed, s)
      else if primary s > PART_PRIMARY_PARTITIONS pol then (Some TooManyPrimaries, s)
      else if length (part ! 1) < 2 then (Some BadExtendedFormat, s)
      else if extensionStart s \<noteq> - 1 then (Some SecondExtended, s)
      else case (if build
                 then createExtendedPartition pol getSizeInBytes run (disk_device diskEntry)
                        (primary s) part s
                 else (None, s)) of
        (Some e, s1) \<Rightarrow> (Some (handle_exn e), s1)
      | (None, s1) \<Rightarrow>
          (case createPartitionEntry part (primary s1) (disk_device diskEntry)
                  (disk_fstab_id diskEntry) s1 of
             (Some e, s2) \<Rightarrow> (Some (handle_exn e), s2)
           | (None, s2) \<Rightarrow> (None, s2\<lparr>primary := primary s2 + 1\<rparr>)))"

text \<open>The \<^verbatim>\<open>else\<close> branch: a primary partition.\<close>

definition process_primary ::
  "policy \<Rightarrow> size_parser \<Rightarrow> runner \<Rightarrow> bool \<Rightarrow> disk_entry \<Rightarrow> string list \<Rightarrow> self_state \<Rightarrow>
   failure option \<times> self_state" where
  "process_primary pol getSizeInBytes run build diskEntry part s =
     (if primary s > PART_PRIMARY_PARTITIONS pol then (Some TooManyPrimaries, s)
      else case (if build
                 then createPrimaryPartition pol getSizeInBytes run (disk_device diskEntry)
                        (primary s) part s
                 else (None, s)) of
        (Some e, s1) \<Rightarrow> (Some (handle_exn e), s1)
      | (None, s1) \<Rightarrow>
          (case createPartitionEntry part (primary s1) (disk_device diskEntry)
                  (disk_fstab_id diskEntry) s1 of
             (Some e, s2) \<Rightarrow> (Some (handle_exn e), s2)
           | (None, s2) \<Rightarrow> (None, s2\<lparr>primary := primary s2 + 1\<rparr>)))"

text \<open>
  One iteration of \<^verbatim>\<open>for part in partitions\<close>. \<^verbatim>\<open>part[1][-1]\<close> raises \<^verbatim>\<open>IndexError\<close> on a
  declaration without an order token (the parser never yields an empty token).
\<close>

definition process_part ::
  "policy \<Rightarrow> size_parser \<Rightarrow> runner \<Rightarrow> bool \<Rightarrow> disk_entry \<Rightarrow> string list \<Rightarrow> self_state \<Rightarrow>
   failure option \<times> self_state" where
  "process_part pol getSizeInBytes run build diskEntry part s =
     (if length part < 2 \<or> part ! 1 = [] then (Some (Uncaught IndexError), s)
      else if last (part ! 1) = CHR ''L''
      then process_logical pol getSizeInBytes run build diskEntry part s
      else if last (part ! 1) = CHR ''E''
      then process_extended pol getSizeInBytes run build diskEntry part s
      else process_primary pol getSizeInBytes run build diskEntry part s)"

fun process_parts ::
  "policy \<Rightarrow> size_parser \<Rightarrow> runner \<Rightarrow> bool \<Rightarrow> disk_entry \<Rightarrow> string list list \<Rightarrow> self_state \<Rightarrow>
   failure option \<times> self_state" where
  "process_parts pol getSizeInBytes run build diskEntry [] s = (None, s)"
| "process_parts pol getSizeInBytes run build diskEntry (part # parts) s =
     (case process_part pol getSizeInBytes run build diskEntry part s of
        (Some f, s') \<Rightarrow> (Some f, s')
      | (None, s') \<Rightarrow> process_parts pol getSizeInBytes run build diskEntry parts s')"

text \<open>
  The declarations: for every option \<^verbatim>\<open>part_<name>\<close>, the name followed by the comma-separated
  fields of the value, each stripped, the empty ones dropped. The options are a Python 2
  dictionary; the list gives its items in the order \<^verbatim>\<open>iteritems()\<close> yields them.
\<close>

definition parse_partitions :: "(string \<times> string) list \<Rightarrow> string list list" where
  "parse_partitions options =
     [ [strip x. x \<leftarrow> drop 5 key # split_on CHR '','' val, length (strip x) > 0].
       (key, val) \<leftarrow> options, startswith key ''part_'' ]"

text \<open>
  \<^verbatim>\<open>partitions.sort(key=lambda x: x[1])\<close>: a stable sort on the order token, by the byte-wise
  lexicographic order of Python 2 strings; \<^verbatim>\<open>x[1]\<close> raises \<^verbatim>\<open>IndexError\<close> on a declaration
  with a single field.
\<close>

definition sort_partitions :: "string list list \<Rightarrow> exn + string list list" where
  "sort_partitions partitions =
     (if \<exists>x \<in> set partitions. length x < 2 then Inl IndexError
      else Inr (sort_key (\<lambda>x. x ! 1) partitions))"

text \<open>
  The loop over \<^verbatim>\<open>self.swaps\<close>. The bare \<^verbatim>\<open>except\<close> logs and goes on to the next swap. The
  second component is \<^verbatim>\<open>diskEntry['swaps']\<close>.
\<close>

fun swap_pass ::
  "runner \<Rightarrow> bool \<Rightarrow> (string \<times> int \<times> string list) list \<Rightarrow>
   self_state \<times> (string \<times> part_record) list \<Rightarrow> self_state \<times> (string \<times> part_record) list" where
  "swap_pass run build [] (s, sw) = (s, sw)"
| "swap_pass run build ((partdev, partnum, partpartition) # rest) (s, sw) =
     (let name = partpartition ! 0
      in case partEntry s name of
           None \<Rightarrow> swap_pass run build rest (log_warning (SwapInitFailed name) s, sw)
         | Some r \<Rightarrow>
             (case (if build
                    then subprocess_check_call run [''sudo'', ''mkswap'', ''-L'', name, device r] s
                    else (None, s)) of
                (Some e, s1) \<Rightarrow> swap_pass run build rest (log_warning (SwapInitFailed name) s1, sw)
              | (None, s1) \<Rightarrow>
                  (let r' = r\<lparr>fstab_id := Some (''LABEL='' @ name)\<rparr>
                   in swap_pass run build rest
                        (s1\<lparr>partEntry := (partEntry s1)(name \<mapsto> r')\<rparr>, sw @ [(name, r')]))))"

text \<open>The values \<^verbatim>\<open>_doPartitioning\<close> gives the fields before it reads the declarations.\<close>

definition initial_state :: "disk_entry \<Rightarrow> string list list \<Rightarrow> self_state" where
  "initial_state diskEntry cs =
     \<lparr> swaps = [], startPercent = 0, disksize = disk_size diskEntry, extensionStart = - 1,
       extensionEnd = - 1, partEntry = Map.empty, primary = 1, logical = 5, calls = cs,
       warnings = [] \<rparr>"

text \<open>What follows the loop over the declarations: probe, settle, the swaps.\<close>

definition finish ::
  "runner \<Rightarrow> bool \<Rightarrow> disk_entry \<Rightarrow> self_state \<Rightarrow> self_state \<times> (string \<times> part_record) list" where
  "finish run build diskEntry s =
     (case subprocess_call run [''sudo'', ''partprobe'', disk_device diskEntry] s of
        (result1, s1) \<Rightarrow>
          (let s2 = (if result1 \<noteq> 0 then log_warning PartProbeFailed s1 else s1)
           in case subprocess_call run [''sudo'', ''udevadm'', ''settle''] s2 of
                (result2, s3) \<Rightarrow>
                  (let s4 = (if result2 \<noteq> 0 then log_warning SettleFailed s3 else s3)
                   in swap_pass run build (swaps s4) (s4, []))))"

text \<open>
  \<^verbatim>\<open>_doPartitioning(options, build)\<close> from the point where the disk's entry has been found in
  the environment. The result is the failure (\<^verbatim>\<open>None\<close> when the method passes), the disk's
  entry as the method leaves it (\<^verbatim>\<open>diskEntry['partitions']\<close> is the very dictionary
  \<^verbatim>\<open>self.partEntry\<close>, so it holds what was recorded before a failure), and the final fields.
\<close>

definition doPartitioning ::
  "policy \<Rightarrow> size_parser \<Rightarrow> runner \<Rightarrow> disk_entry \<Rightarrow> (string \<times> string) list \<Rightarrow> bool \<Rightarrow>
   failure option \<times> disk_entry \<times> self_state" where
  "doPartitioning pol getSizeInBytes run diskEntry options build =
     (if disk_partitions diskEntry \<noteq> None
      then (Some AlreadyPartitioned, diskEntry, initial_state diskEntry [])
      else
        let mklabel = [''sudo'', ''parted'', ''-s'', disk_device diskEntry, ''--'', ''mklabel'',
                       PART_TYPE pol];
            s0 = initial_state diskEntry (if build then [mklabel] else [])
        in if build \<and> run [] mklabel \<noteq> 0
           then (Some (Uncaught CalledProcessError),
                 diskEntry\<lparr>disk_partitions := Some Map.empty, disk_swaps := Some []\<rparr>, s0)
           else case sort_partitions (parse_partitions options) of
             Inl e \<Rightarrow>
               (Some (Uncaught e),
                diskEntry\<lparr>disk_partitions := Some Map.empty, disk_swaps := Some []\<rparr>, s0)
           | Inr partitions \<Rightarrow>
               (case process_parts pol getSizeInBytes run build diskEntry partitions s0 of
                  (Some f, s1) \<Rightarrow>
                    (Some f,
                     diskEntry\<lparr>disk_partitions := Some (partEntry s1), disk_swaps := Some []\<rparr>,
                     s1)
                | (None, s1) \<Rightarrow>
                    (case finish run build diskEntry s1 of
                       (s2, sw) \<Rightarrow>
                         (None,
                          diskEntry\<lparr>disk_partitions := Some (partEntry s2),
                                    disk_swaps := Some sw\<rparr>,
                          s2))))"

text \<open>\<^verbatim>\<open>build\<close> (and \<^verbatim>\<open>system_build\<close>, which calls it) and \<^verbatim>\<open>use_system_build\<close>.\<close>

definition build ::
  "policy \<Rightarrow> size_parser \<Rightarrow> runner \<Rightarrow> disk_entry \<Rightarrow> (string \<times> string) list \<Rightarrow>
   failure option \<times> disk_entry \<times> self_state" where
  "build pol getSizeInBytes run diskEntry options =
     doPartitioning pol getSizeInBytes run diskEntry options True"

definition use_system_build ::
  "policy \<Rightarrow> size_parser \<Rightarrow> runner \<Rightarrow> disk_entry \<Rightarrow> (string \<times> string) list \<Rightarrow>
   failure option \<times> disk_entry \<times> self_state" where
  "use_system_build pol getSizeInBytes run diskEntry options =
     doPartitioning pol getSizeInBytes run diskEntry options False"

section \<open>SystemBuildFileSystem\<close>

text \<open>\<^verbatim>\<open>s.split()\<close>: the maximal runs of non-whitespace characters.\<close>

fun split_ws_from :: "string \<Rightarrow> string \<Rightarrow> string list" where
  "split_ws_from w [] = (if w = [] then [] else [rev w])"
| "split_ws_from w (c # cs) =
     (if is_space c then (if w = [] then split_ws_from [] cs else rev w # split_ws_from [] cs)
      else split_ws_from (c # w) cs)"

definition split_ws :: "string \<Rightarrow> string list" where
  "split_ws s = split_ws_from [] s"

text \<open>\<^verbatim>\<open>s.upper()\<close> on ASCII letters.\<close>

definition upper :: "string \<Rightarrow> string" where
  "upper s = map (\<lambda>c. if CHR ''a'' \<le> c \<and> c \<le> CHR ''z'' then char_of (of_char c - (32::nat)) else c) s"

text \<open>
  The \<^verbatim>\<open>self.log.failed(); return None\<close> exits of \<^verbatim>\<open>_createFileSystemRecord\<close>, and an
  exception that leaves it.
\<close>

datatype fs_failure =
    FilesystemDefined       \<comment> \<open>"System already has a filesystem defined"\<close>
  | InvalidSpec             \<comment> \<open>"Filesystem spec was invalid"\<close>
  | DeviceUndefined         \<comment> \<open>"Device for mount point undefined"\<close>
  | PartitionUndefined      \<comment> \<open>"Partition for disk undefined"\<close>
  | FsUncaught exn

text \<open>
  The system entry as this section uses it: the disks (whose fstab-ids it may overwrite), the
  \<^verbatim>\<open>filesystem\<close> and \<^verbatim>\<open>filesystem-info\<close> tables it adds, and the logs of commands and of
  mount points whose labelling failed. An entry of \<^verbatim>\<open>filesystem-info\<close> refers to the
  disk's and the partition's dictionaries; the model names them.
\<close>

record fs_state =
  disks :: "string \<rightharpoonup> disk_entry"
  fsEntry :: "string \<rightharpoonup> string \<times> string \<times> string \<times> string option"
  fsinfoEntry :: "string \<rightharpoonup> string \<times> string option"
  fs_calls :: "string list list"
  fs_warnings :: "string list"

text \<open>
  The methods \<^verbatim>\<open>_labelFileSystem_<fstype>\<close> that \<^verbatim>\<open>hasattr\<close> finds: for the label and the
  device, the label each returns and the command it runs in build mode.
\<close>

definition labelFileSystem :: "string \<Rightarrow> (string \<Rightarrow> string \<Rightarrow> string \<times> string list) option" where
  "labelFileSystem fstype =
     (if fstype = ''ext2'' \<or> fstype = ''ext3'' \<or> fstype = ''ext4'' \<or> fstype = ''ext''
      then Some (\<lambda>fslabel dev. (fslabel, [''sudo'', ''e2label'', dev, fslabel]))
      else if fstype = ''btrfs''
      then Some (\<lambda>fslabel dev. (fslabel, [''sudo'', ''btrfs'', ''filesystem'', ''label'', dev, fslabel]))
      else if fstype = ''vfat'' \<or> fstype = ''fat''
      then Some (\<lambda>fslabel dev. (upper (take 11 fslabel),
                                  [''sudo'', ''fatlabel'', dev, upper (take 11 fslabel)]))
      else if fstype = ''NTFS''
      then Some (\<lambda>fslabel dev. (fslabel, [''sudo'', ''ntfslabel'', dev, fslabel]))
      else if fstype = ''jfs''
      then Some (\<lambda>fslabel dev. (fslabel, [''sudo'', ''jfs_tune'', ''-L'', fslabel, dev]))
      else if fstype = ''xfs''
      then Some (\<lambda>fslabel dev. (fslabel, [''sudo'', ''xfs_admin'', ''-L'', fslabel, dev]))
      else None)"

text \<open>
  The end of the loop body, from \<^verbatim>\<open>if build: ... mkfs\<close> on. The target of the fstab-id is the
  partition when one is named, else the disk; \<^verbatim>\<open>'=' not in None\<close> raises \<^verbatim>\<open>TypeError\<close>.
  (The entries of the disk's list of swaps are the dictionaries of its table; the model
  overwrites the fstab-id in the table only.)
\<close>

definition format_and_record ::
  "runner \<Rightarrow> bool \<Rightarrow> string \<Rightarrow> string \<Rightarrow> string list \<Rightarrow> string \<Rightarrow> string option \<Rightarrow>
   disk_entry \<Rightarrow> (string \<rightharpoonup> part_record) \<Rightarrow> string \<Rightarrow> string \<Rightarrow> string option \<Rightarrow>
   fs_state \<Rightarrow> fs_failure option \<times> fs_state" where
  "format_and_record run building mountpt fstype fsoptions diskname partname diskEntry partTable
       dev fslabel target_id st =
     (let mkfs = [''sudo'', ''mkfs'', ''-t'', fstype] @ fsoptions @ [dev];
          st1 = (if building then st\<lparr>fs_calls := fs_calls st @ [mkfs]\<rparr> else st)
      in if building \<and> run (fs_calls st) mkfs \<noteq> 0 then (Some (FsUncaught CalledProcessError), st1)
         else case target_id of
           None \<Rightarrow> (Some (FsUncaught TypeError), st1)
         | Some fstabid \<Rightarrow>
             (case (if contains ''='' fstabid then None else labelFileSystem fstype) of
                None \<Rightarrow> (None, st1\<lparr>fsEntry := (fsEntry st1)(mountpt \<mapsto>
                                    (mountpt, dev, fstype, Some fstabid))\<rparr>)
              | Some labeler \<Rightarrow>
                  (case labeler fslabel dev of
                     (newlabel, command) \<Rightarrow>
                       (let st2 = (if building then st1\<lparr>fs_calls := fs_calls st1 @ [command]\<rparr>
                                   else st1)
                        in if building \<and> run (fs_calls st1) command \<noteq> 0
                           then (None, st2\<lparr>fs_warnings := fs_warnings st2 @ [mountpt],
                                           fsEntry := (fsEntry st2)(mountpt \<mapsto>
                                             (mountpt, dev, fstype, Some fstabid))\<rparr>)
                           else
                             (let newid = ''LABEL='' @ newlabel;
                                  diskEntry' =
                                    (case partname of
                                       None \<Rightarrow> diskEntry\<lparr>disk_fstab_id := newid\<rparr>
                                     | Some pn \<Rightarrow>
                                         diskEntry\<lparr>disk_partitions := Some (partTable(pn :=
                                           map_option (\<lambda>r. r\<lparr>fstab_id := Some newid\<rparr>)
                                             (partTable pn)))\<rparr>)
                              in (None, st2\<lparr>disks := (disks st2)(diskname \<mapsto> diskEntry'),
                                             fsEntry := (fsEntry st2)(mountpt \<mapsto>
                                               (mountpt, dev, fstype, Some newid))\<rparr>))))))"

text \<open>One iteration of \<^verbatim>\<open>for mountpt in mountpts\<close>.\<close>

definition process_mountpt ::
  "runner \<Rightarrow> bool \<Rightarrow> (string \<times> string) list \<Rightarrow> string \<Rightarrow> fs_state \<Rightarrow>
   fs_failure option \<times> fs_state" where
  "process_mountpt run building options mountpt st =
     (case map_of options mountpt of
        None \<Rightarrow> (Some (FsUncaught KeyError), st)
      | Some val \<Rightarrow>
          (let parts = split_on CHR '','' val
           in if length parts \<noteq> 2 \<and> length parts \<noteq> 3 then (Some InvalidSpec, st)
              else
                (let csmakedevice = strip (parts ! 0);
                     fstype = strip (parts ! 1);
                     fsoptions = (if length parts = 3 then split_ws (parts ! 2) else []);
                     diskname = (if contains ''.'' csmakedevice
                                 then takeWhile (\<lambda>c. c \<noteq> CHR ''.'') csmakedevice
                                 else csmakedevice);
                     partname = (if contains ''.'' csmakedevice
                                 then Some (tl (dropWhile (\<lambda>c. c \<noteq> CHR ''.'') csmakedevice))
                                 else None)
                 in case disks st diskname of
                      None \<Rightarrow> (Some DeviceUndefined, st)
                    | Some diskEntry \<Rightarrow>
                        (let st1 = st\<lparr>fsinfoEntry := (fsinfoEntry st)(mountpt \<mapsto> (diskname, None))\<rparr>
                         in case partname of
                              None \<Rightarrow>
                                format_and_record run building mountpt fstype fsoptions diskname None
                                  diskEntry Map.empty (disk_device diskEntry) diskname
                                  (Some (disk_fstab_id diskEntry)) st1
                            | Some pn \<Rightarrow>
                                (case disk_partitions diskEntry of
                                   None \<Rightarrow> (Some (FsUncaught KeyError), st1)
                                 | Some partTable \<Rightarrow>
                                     (case partTable pn of
                                        None \<Rightarrow> (Some PartitionUndefined, st1)
                                      | Some r \<Rightarrow>
                                          format_and_record run building mountpt fstype fsoptions
                                            diskname (Some pn) diskEntry partTable (device r) pn
                                            (fstab_id r)
                                            (st1\<lparr>fsinfoEntry := (fsinfoEntry st1)(mountpt \<mapsto>
                                                   (diskname, Some pn))\<rparr>)))))))"

fun process_mountpts ::
  "runner \<Rightarrow> bool \<Rightarrow> (string \<times> string) list \<Rightarrow> string list \<Rightarrow> fs_state \<Rightarrow>
   fs_failure option \<times> fs_state" where
  "process_mountpts run building options [] st = (None, st)"
| "process_mountpts run building options (mountpt # rest) st =
     (case process_mountpt run building options mountpt st of
        (Some f, st') \<Rightarrow> (Some f, st')
      | (None, st') \<Rightarrow> process_mountpts run building options rest st')"

text \<open>
  \<^verbatim>\<open>mountpts = [x for x in options.keys() if x[0] == '/']\<close>, then
  \<^verbatim>\<open>mountpts.sort(key=lambda x: len(x.split('/')))\<close>, a stable sort. The options are a Python 2
  dictionary; the list gives its items in the order \<^verbatim>\<open>keys()\<close> yields them. \<^verbatim>\<open>x[0]\<close> raises
  \<^verbatim>\<open>IndexError\<close> on an empty key.
\<close>

definition mountpts :: "(string \<times> string) list \<Rightarrow> exn + string list" where
  "mountpts options =
     (if \<exists>x \<in> set (map fst options). x = [] then Inl IndexError
      else Inr (sort_key (\<lambda>x. length (split_on CHR ''/'' x))
                  [x \<leftarrow> map fst options. hd x = CHR ''/'']))"

text \<open>
  \<^verbatim>\<open>_createFileSystemRecord(options, build)\<close> from the point where the system's entry has been
  found; \<^verbatim>\<open>has_filesystem\<close> tells whether it has a \<^verbatim>\<open>filesystem\<close> key already. The command
  \<^verbatim>\<open>sync\<close> ends a run that passes.
\<close>

definition createFileSystemRecord ::
  "runner \<Rightarrow> (string \<rightharpoonup> disk_entry) \<Rightarrow> bool \<Rightarrow> (string \<times> string) list \<Rightarrow> bool \<Rightarrow>
   fs_failure option \<times> fs_state" where
  "createFileSystemRecord run system_disks has_filesystem options building =
     (let st0 = \<lparr> disks = system_disks, fsEntry = Map.empty, fsinfoEntry = Map.empty,
                  fs_calls = [], fs_warnings = [] \<rparr>
      in if has_filesystem then (Some FilesystemDefined, st0)
         else case mountpts options of
           Inl e \<Rightarrow> (Some (FsUncaught e), st0)
         | Inr ms \<Rightarrow>
             (case process_mountpts run building options ms st0 of
                (Some f, st1) \<Rightarrow> (Some f, st1)
              | (None, st1) \<Rightarrow> (None, st1\<lparr>fs_calls := fs_calls st1 @ [[''sync'']]\<rparr>)))"


section \<open>Example inputs\<close>

text \<open>
  A size parser for the sizes used in the examples below, in binary units: any other string is
  rejected with \<^verbatim>\<open>ValueError\<close>.
\<close>

definition example_sizes :: size_parser where
  "example_sizes sz =
     (case map_of [(''1M'', 2 ^ 20), (''2G'', 2 * 2 ^ 30), (''10G'', 10 * 2 ^ 30),
                   (''50G'', 50 * 2 ^ 30), (''2T'', 2 * 2 ^ 40)] sz of
        None \<Rightarrow> Inl ValueError
      | Some n \<Rightarrow> Inr n)"

text \<open>A 100 GiB disk \<^verbatim>\<open>/dev/sda\<close>, a 1 TiB loop device, and a disk known by a UUID.\<close>

definition sda :: disk_entry where
  "sda = \<lparr> disk_device = ''/dev/sda'', disk_size = 100 * 2 ^ 30, disk_fstab_id = ''/dev/sda'',
           disk_partitions = None, disk_swaps = None \<rparr>"

definition loop0 :: disk_entry where
  "loop0 = \<lparr> disk_device = ''/dev/loop0'', disk_size = 2 ^ 40, disk_fstab_id = ''/dev/loop0'',
             disk_partitions = None, disk_swaps = None \<rparr>"

definition sdb_uuid :: disk_entry where
  "sdb_uuid = \<lparr> disk_device = ''/dev/sdb'', disk_size = 100 * 2 ^ 30,
                disk_fstab_id = ''UUID=0a1b'', disk_partitions = None, disk_swaps = None \<rparr>"

text \<open>Every command exits with status 0.\<close>

definition all_succeed :: runner where
  "all_succeed history command = 0"


text \<open>
  The declarations of a root and a swap partition, as the dictionary may yield them: the swap
  first.
\<close>

definition root_and_swap :: "(string \<times> string) list" where
  "root_and_swap = [(''part_swap'', ''02, 2G, linux-swap''), (''system'', ''mysystem''),
                    (''part_root'', ''01, 10G, ext4, boot''), (''disk-name'', ''mydisk'')]"

text \<open>An extended partition declared before a primary one.\<close>

definition extended_then_primary :: "(string \<times> string) list" where
  "extended_then_primary = [(''part_data'', ''2, 10G, ext2''), (''part_ext'', ''1E, 50G'')]"


text \<open>A logical partition and no extended one.\<close>

definition lone_logical :: "(string \<times> string) list" where
  "lone_logical = [(''part_home'', ''1E:5L, 2G, ext2'')]"


text \<open>Two primary partitions, an extended one and two logical ones inside it.\<close>

definition with_logicals :: "(string \<times> string) list" where
  "with_logicals = [(''part_var'', ''3E:2L, 2G, ext2''), (''part_boot'', ''1, 2G, ext2''),
                    (''part_ext'', ''3E, 50G''), (''part_home'', ''3E:1L, 10G, ext2''),
                    (''part_root'', ''2, 10G, ext2'')]"

text \<open>The same declarations, parsed, in the order of their order tokens.\<close>

definition with_logicals_sorted :: "string list list" where
  "with_logicals_sorted =
     [[''boot'', ''1'', ''2G'', ''ext2''], [''root'', ''2'', ''10G'', ''ext2''],
      [''ext'', ''3E'', ''50G''], [''home'', ''3E:1L'', ''10G'', ''ext2''],
      [''var'', ''3E:2L'', ''2G'', ''ext2'']]"



text \<open>The lone logical partition, parsed.\<close>

definition home_logical :: "string list" where
  "home_logical = [''home'', ''1E:5L'', ''2G'', ''ext2'']"

text \<open>
  A system with one disk, \<^verbatim>\<open>mydisk\<close>, partitioned into \<^verbatim>\<open>boot\<close> and \<^verbatim>\<open>root\<close>, and the
  options of a filesystem section whose dictionary yields \<^verbatim>\<open>/boot\<close> before \<^verbatim>\<open>/\<close>.
\<close>

definition mydisk :: disk_entry where
  "mydisk = \<lparr> disk_device = ''/dev/sda'', disk_size = 100 * 2 ^ 30, disk_fstab_id = ''/dev/sda'',
     disk_partitions = Some
       [''boot'' \<mapsto> \<lparr>number = 1, part_size = ''2G'', device = ''/dev/sda1'',
                      fstab_id = Some ''/dev/sda1''\<rparr>,
        ''root'' \<mapsto> \<lparr>number = 2, part_size = ''10G'', device = ''/dev/sda2'',
                      fstab_id = Some ''/dev/sda2''\<rparr>],
     disk_swaps = Some [] \<rparr>"

definition boot_then_root :: "(string \<times> string) list" where
  "boot_then_root = [(''/boot'', ''mydisk.boot, ext2''), (''system'', ''mysystem''),
                     (''/'', ''mydisk.root, ext4'')]"

text \<open>The same with a mount point below \<^verbatim>\<open>/boot\<close>, which the dictionary yields first.\<close>

definition efi_boot_root :: "(string \<times> string) list" where
  "efi_boot_root = [(''/boot/efi'', ''mydisk.boot, vfat''), (''/boot'', ''mydisk.boot, ext2''),
                    (''system'', ''mysystem''), (''/'', ''mydisk.root, ext4'')]"


section \<open>Notions used in the statements\<close>

text \<open>
  The operations that issue commands never touch the partition table being recorded, the two
  counters or the disk size.
\<close>

definition kept :: "self_state \<Rightarrow> self_state \<Rightarrow> bool" where
  "kept s s' \<longleftrightarrow> partEntry s' = partEntry s \<and> primary s' = primary s \<and> logical s' = logical s
     \<and> disksize s' = disksize s"

text \<open>The classification the loop makes: a declaration whose order token ends in \<^verbatim>\<open>L\<close>.\<close>

definition is_logical :: "string list \<Rightarrow> bool" where
  "is_logical part \<longleftrightarrow> last (part ! 1) = CHR ''L''"

text \<open>What an iteration that raises nothing does to the table and the counters.\<close>

definition step_ok :: "policy \<Rightarrow> disk_entry \<Rightarrow> string list \<Rightarrow> self_state \<Rightarrow> self_state \<Rightarrow> bool" where
  "step_ok pol diskEntry part s s' \<longleftrightarrow>
     3 \<le> length part \<and> part ! 1 \<noteq> [] \<and>
     (if is_logical part
      then partEntry s' = (partEntry s)(part ! 0 \<mapsto>
             partition_record part (logical s) (disk_device diskEntry) (disk_fstab_id diskEntry))
           \<and> logical s' = logical s + 1 \<and> primary s' = primary s
      else partEntry s' = (partEntry s)(part ! 0 \<mapsto>
             partition_record part (primary s) (disk_device diskEntry) (disk_fstab_id diskEntry))
           \<and> primary s' = primary s + 1 \<and> logical s' = logical s
           \<and> primary s \<le> PART_PRIMARY_PARTITIONS pol)"

text \<open>
  The table and the counters after a list of declarations has been recorded, from given counters
  and a given table: what the loop computes when no iteration fails.
\<close>

fun emit ::
  "disk_entry \<Rightarrow> string list list \<Rightarrow> int \<times> int \<times> (string \<rightharpoonup> part_record) \<Rightarrow>
   int \<times> int \<times> (string \<rightharpoonup> part_record)" where
  "emit diskEntry [] plm = plm"
| "emit diskEntry (part # parts) (p, l, m) =
     (if is_logical part
      then emit diskEntry parts (p, l + 1, m(part ! 0 \<mapsto>
             partition_record part l (disk_device diskEntry) (disk_fstab_id diskEntry)))
      else emit diskEntry parts (p + 1, l, m(part ! 0 \<mapsto>
             partition_record part p (disk_device diskEntry) (disk_fstab_id diskEntry))))"

text \<open>
  The numbering as the specification words it: the primary and extended partitions are numbered
  by one counter that starts at 1, the logical partitions by another that starts at 5, each in
  the order of processing. \<open>expected_number parts i\<close> is the number of the declaration at
  position \<open>i\<close>.
\<close>

definition expected_number :: "string list list \<Rightarrow> nat \<Rightarrow> int" where
  "expected_number parts i =
     (if is_logical (parts ! i)
      then 5 + int (length (filter is_logical (take i parts)))
      else 1 + int (length (filter (\<lambda>p. \<not> is_logical p) (take i parts))))"

text \<open>
  What the loop over the swaps may do to a table: put the label reference
  \<^verbatim>\<open>LABEL=<name>\<close> in place of the fstab-id of some of its records.
\<close>

definition relabelled :: "(string \<rightharpoonup> part_record) \<Rightarrow> (string \<rightharpoonup> part_record) \<Rightarrow> bool" where
  "relabelled m m' \<longleftrightarrow>
     (\<forall>name. case m name of
        None \<Rightarrow> m' name = None
      | Some r \<Rightarrow> m' name = Some r \<or> m' name = Some (r\<lparr>fstab_id := Some (''LABEL='' @ name)\<rparr>))"

text \<open>The first command of a build: the partition table is created.\<close>

definition mklabel_command :: "policy \<Rightarrow> disk_entry \<Rightarrow> string list" where
  "mklabel_command pol diskEntry =
     [''sudo'', ''parted'', ''-s'', disk_device diskEntry, ''--'', ''mklabel'', PART_TYPE pol]"

text \<open>The fields when the loop over the declarations starts.\<close>

definition loop_start :: "policy \<Rightarrow> disk_entry \<Rightarrow> bool \<Rightarrow> self_state" where
  "loop_start pol diskEntry b =
     initial_state diskEntry (if b then [mklabel_command pol diskEntry] else [])"

text \<open>
  The fstab-id as claim C7 words it: the disk's fstab-id propagated, unless it contains \<^verbatim>\<open>=\<close>,
  in which case a numbered reference derived from it.
\<close>

definition claimed_fstab_id :: "string \<Rightarrow> int \<Rightarrow> string option" where
  "claimed_fstab_id diskFstabId n =
     (if contains ''='' diskFstabId then Some (diskFstabId @ fmt_d n) else Some diskFstabId)"

text \<open>The operations other than those for extended and logical partitions leave the extent of
  the extended partition alone.\<close>

definition same_extension :: "self_state \<Rightarrow> self_state \<Rightarrow> bool" where
  "same_extension s s' \<longleftrightarrow>
     extensionStart s' = extensionStart s \<and> extensionEnd s' = extensionEnd s"

text \<open>A command of the shape of \<open>flag_command\<close>: \<^verbatim>\<open>sudo parted -s <device> -- set <number> <flag> on\<close>.\<close>

definition is_flag_command :: "string list \<Rightarrow> bool" where
  "is_flag_command c \<longleftrightarrow> length c = 9 \<and> c ! 5 = ''set''"

text \<open>No flag-setting command of a log has exited with a non-zero status.\<close>

definition flags_ok :: "runner \<Rightarrow> string list list \<Rightarrow> bool" where
  "flags_ok run cs \<longleftrightarrow> (\<forall>i<length cs. is_flag_command (cs ! i) \<longrightarrow> run (take i cs) (cs ! i) = 0)"

text \<open>
  Either that, or the operation has raised \<^verbatim>\<open>CalledProcessError\<close> and only the last command
  of the log may be a flag-setting command that has exited with a non-zero status.
\<close>

definition flag_post :: "runner \<Rightarrow> exn option \<Rightarrow> self_state \<Rightarrow> bool" where
  "flag_post run r s' \<longleftrightarrow>
     flags_ok run (calls s') \<or>
     (r = Some CalledProcessError \<and> calls s' \<noteq> [] \<and> flags_ok run (butlast (calls s')))"



text \<open>
  What an iteration of the loop over the mount points does to the \<^verbatim>\<open>filesystem\<close> table: it
  records the mount point, or, when it fails, leaves the table as it was.
\<close>

definition fs_step :: "string \<Rightarrow> fs_failure option \<Rightarrow> fs_state \<Rightarrow> fs_state \<Rightarrow> bool" where
  "fs_step mountpt r st st' \<longleftrightarrow>
     (case r of
        None \<Rightarrow> dom (fsEntry st') = insert mountpt (dom (fsEntry st))
      | Some f \<Rightarrow> fsEntry st' = fsEntry st)"


section \<open>What the partition-creating operations leave unchanged\<close>

lemma kept_refl [simp]: "kept s s"
  by (simp add: kept_def)

lemma kept_trans: "kept s s1 \<Longrightarrow> kept s1 s2 \<Longrightarrow> kept s s2"
  by (simp add: kept_def)

lemma kept_log_warning [simp]: "kept s (log_warning w s)"
  by (simp add: kept_def log_warning_def)

lemma kept_call: "subprocess_call run c s = (rc, s') \<Longrightarrow> kept s s'"
  by (auto simp: subprocess_call_def kept_def)

lemma kept_check_call: "subprocess_check_call run c s = (r, s') \<Longrightarrow> kept s s'"
  by (auto simp: subprocess_check_call_def kept_def)

lemma kept_getRequestedPercentage:
  "getRequestedPercentage gs sz s = (r, s') \<Longrightarrow> kept s s'"
  by (auto simp: getRequestedPercentage_def Let_def split: sum.splits double.splits if_splits)

lemma kept_set_flags: "set_flags run dev num flags s = (r, s') \<Longrightarrow> kept s s'"
proof (induction flags arbitrary: s)
  case Nil
  then show ?case by simp
next
  case (Cons f fs)
  then show ?case
    by (auto split: prod.splits option.splits dest!: kept_check_call intro: kept_trans)
qed

lemma kept_createNextPartition_calls:
  "createNextPartition_calls pol run dev num pt part st en fstype cs cmds s = (r, s')
   \<Longrightarrow> kept s s'"
  unfolding createNextPartition_calls_def Let_def
  by (auto split: prod.splits option.splits if_splits
      dest!: kept_check_call kept_call kept_set_flags
      simp: kept_def editPartitionWithSfdisk_def subprocess_call_def log_warning_def)

lemma kept_createNextPartition:
  "createNextPartition pol run dev num pt part st en s = (r, s') \<Longrightarrow> kept s s'"
  unfolding createNextPartition_def
  by (auto split: option.splits if_splits dest: kept_createNextPartition_calls)

lemma kept_createPrimaryPartition:
  "createPrimaryPartition pol gs run dev num part s = (r, s') \<Longrightarrow> kept s s'"
  unfolding createPrimaryPartition_def Let_def
  by (auto split: prod.splits sum.splits option.splits if_splits
      dest!: kept_getRequestedPercentage kept_createNextPartition simp: kept_def log_warning_def)

lemma kept_createExtendedPartition:
  "createExtendedPartition pol gs run dev num part s = (r, s') \<Longrightarrow> kept s s'"
  unfolding createExtendedPartition_def Let_def
  by (auto split: prod.splits sum.splits option.splits if_splits
      dest!: kept_getRequestedPercentage kept_createNextPartition simp: kept_def log_warning_def)

lemma kept_createLogicalPartition:
  "createLogicalPartition pol gs run dev num part s = (r, s') \<Longrightarrow> kept s s'"
  unfolding createLogicalPartition_def Let_def
  by (auto split: prod.splits sum.splits option.splits if_splits
      dest!: kept_getRequestedPercentage kept_createNextPartition simp: kept_def log_warning_def)


section \<open>One iteration, and the loop over the declarations\<close>

lemma process_logical_step:
  "process_logical pol gs run b diskEntry part s = (r, s') \<Longrightarrow> is_logical part \<Longrightarrow>
     part ! 1 \<noteq> [] \<Longrightarrow>
     (case r of Some f \<Rightarrow> kept s s' | None \<Rightarrow> step_ok pol diskEntry part s s')"
  unfolding process_logical_def createPartitionEntry_def
  by (auto split: prod.splits option.splits if_splits dest!: kept_createLogicalPartition
      simp: kept_def step_ok_def)

lemma process_extended_step:
  "process_extended pol gs run b diskEntry part s = (r, s') \<Longrightarrow> \<not> is_logical part \<Longrightarrow>
     part ! 1 \<noteq> [] \<Longrightarrow>
     (case r of Some f \<Rightarrow> kept s s' | None \<Rightarrow> step_ok pol diskEntry part s s')"
  unfolding process_extended_def createPartitionEntry_def
  by (auto split: prod.splits option.splits if_splits dest!: kept_createExtendedPartition
      simp: kept_def step_ok_def)

lemma process_primary_step:
  "process_primary pol gs run b diskEntry part s = (r, s') \<Longrightarrow> \<not> is_logical part \<Longrightarrow>
     part ! 1 \<noteq> [] \<Longrightarrow>
     (case r of Some f \<Rightarrow> kept s s' | None \<Rightarrow> step_ok pol diskEntry part s s')"
  unfolding process_primary_def createPartitionEntry_def
  by (auto split: prod.splits option.splits if_splits dest!: kept_createPrimaryPartition
      simp: kept_def step_ok_def)

lemma process_part_step:
  "process_part pol gs run b diskEntry part s = (r, s') \<Longrightarrow>
     (case r of Some f \<Rightarrow> kept s s' | None \<Rightarrow> step_ok pol diskEntry part s s')"
  unfolding process_part_def
  by (auto split: if_splits simp: is_logical_def
      dest: process_logical_step process_extended_step process_primary_step)

lemma process_parts_append:
  "process_parts pol gs run b diskEntry (xs @ ys) s =
     (case process_parts pol gs run b diskEntry xs s of
        (Some f, s') \<Rightarrow> (Some f, s')
      | (None, s') \<Rightarrow> process_parts pol gs run b diskEntry ys s')"
  by (induction xs arbitrary: s) (auto split: prod.splits option.splits)

lemma process_parts_split:
  "process_parts pol gs run b diskEntry ps s = (r, s') \<Longrightarrow>
     \<exists>k sk. k \<le> length ps \<and> process_parts pol gs run b diskEntry (take k ps) s = (None, sk) \<and>
       (case r of None \<Rightarrow> k = length ps \<and> s' = sk
        | Some f \<Rightarrow> k < length ps \<and> process_part pol gs run b diskEntry (ps ! k) sk = (Some f, s'))"
proof (induction ps arbitrary: s)
  case Nil
  then show ?case by auto
next
  case (Cons p ps)
  show ?case
  proof (cases "process_part pol gs run b diskEntry p s")
    case (Pair r1 s1)
    show ?thesis
    proof (cases r1)
      case None
      with Pair Cons.prems have "process_parts pol gs run b diskEntry ps s1 = (r, s')" by simp
      from Cons.IH[OF this] obtain k sk where
        k: "k \<le> length ps" "process_parts pol gs run b diskEntry (take k ps) s1 = (None, sk)"
          "(case r of None \<Rightarrow> k = length ps \<and> s' = sk
            | Some f \<Rightarrow> k < length ps \<and> process_part pol gs run b diskEntry (ps ! k) sk = (Some f, s'))"
        by blast
      show ?thesis
        apply (rule exI[of _ "Suc k"], rule exI[of _ sk])
        using k Pair None by (auto split: option.splits)
    next
      case (Some f)
      with Pair Cons.prems have "r = Some f" "s' = s1" by auto
      then show ?thesis
        apply -
        apply (rule exI[of _ 0], rule exI[of _ s])
        using Pair Some by auto
    qed
  qed
qed

lemma process_parts_emit:
  "process_parts pol gs run b diskEntry ps s = (None, s') \<Longrightarrow>
     (primary s', logical s', partEntry s') = emit diskEntry ps (primary s, logical s, partEntry s)
     \<and> (\<forall>p \<in> set ps. 3 \<le> length p \<and> p ! 1 \<noteq> [])"
proof (induction ps arbitrary: s)
  case Nil
  then show ?case by simp
next
  case (Cons p ps)
  from Cons.prems obtain s1 where
    s1: "process_part pol gs run b diskEntry p s = (None, s1)"
    and rest: "process_parts pol gs run b diskEntry ps s1 = (None, s')"
    by (auto split: prod.splits option.splits)
  from process_part_step[OF s1] have ok: "step_ok pol diskEntry p s s1" by simp
  note ih = Cons.IH[OF rest]
  have "emit diskEntry (p # ps) (primary s, logical s, partEntry s)
        = emit diskEntry ps (primary s1, logical s1, partEntry s1)"
  proof (cases "is_logical p")
    case True
    with ok have "primary s1 = primary s" "logical s1 = logical s + 1"
      "partEntry s1 = (partEntry s)(p ! 0 \<mapsto>
         partition_record p (logical s) (disk_device diskEntry) (disk_fstab_id diskEntry))"
      by (simp_all add: step_ok_def)
    with True show ?thesis by (simp only: emit.simps if_True)
  next
    case False
    with ok have "primary s1 = primary s + 1" "logical s1 = logical s"
      "partEntry s1 = (partEntry s)(p ! 0 \<mapsto>
         partition_record p (primary s) (disk_device diskEntry) (disk_fstab_id diskEntry))"
      by (simp_all add: step_ok_def)
    with False show ?thesis by (simp only: emit.simps if_False)
  qed
  moreover from ok have "3 \<le> length p" "p ! 1 \<noteq> []" by (simp_all add: step_ok_def)
  ultimately show ?case using ih by simp
qed

subsection \<open>The table a list of declarations yields\<close>

lemma emit_primary:
  "fst (emit d ps (p, l, m)) = p + int (length (filter (\<lambda>x. \<not> is_logical x) ps))"
  by (induction ps arbitrary: p l m) simp_all

lemma emit_logical:
  "fst (snd (emit d ps (p, l, m))) = l + int (length (filter is_logical ps))"
  by (induction ps arbitrary: p l m) simp_all

lemma emit_dom:
  "emit d ps (p, l, m) = (p', l', m') \<Longrightarrow> dom m' = dom m \<union> (\<lambda>x. x ! 0) ` set ps"
  by (induction ps arbitrary: p l m) (auto split: if_splits)

lemma emit_other:
  "emit d ps (p, l, m) = (p', l', m') \<Longrightarrow> n \<notin> (\<lambda>x. x ! 0) ` set ps \<Longrightarrow> m' n = m n"
  by (induction ps arbitrary: p l m) (auto split: if_splits)

lemma emit_append:
  "emit d (xs @ ys) plm = emit d ys (emit d xs plm)"
  by (induction xs arbitrary: plm) (auto split: if_splits)

lemma emit_at:
  assumes "emit d ps (p, l, m) = (p', l', m')" "i < length ps"
    and "\<forall>j<length ps. i < j \<longrightarrow> ps ! j ! 0 \<noteq> ps ! i ! 0"
  shows "m' (ps ! i ! 0) = Some (partition_record (ps ! i)
           (if is_logical (ps ! i) then l + int (length (filter is_logical (take i ps)))
            else p + int (length (filter (\<lambda>x. \<not> is_logical x) (take i ps))))
           (disk_device d) (disk_fstab_id d))"
proof -
  have split: "ps = take i ps @ ps ! i # drop (Suc i) ps"
    using assms(2) by (simp add: id_take_nth_drop)
  obtain p1 l1 m1 where e1: "emit d (take i ps) (p, l, m) = (p1, l1, m1)"
    by (cases "emit d (take i ps) (p, l, m)") auto
  from e1 emit_primary[of d "take i ps" p l m] emit_logical[of d "take i ps" p l m] have c1:
    "p1 = p + int (length (filter (\<lambda>x. \<not> is_logical x) (take i ps)))"
    "l1 = l + int (length (filter is_logical (take i ps)))" by simp_all
  let ?r = "partition_record (ps ! i) (if is_logical (ps ! i) then l1 else p1)
              (disk_device d) (disk_fstab_id d)"
  let ?plm2 = "(if is_logical (ps ! i) then p1 else p1 + 1,
                if is_logical (ps ! i) then l1 + 1 else l1, m1(ps ! i ! 0 \<mapsto> ?r))"
  have "emit d ps (p, l, m) = emit d (drop (Suc i) ps) ?plm2"
    by (subst split, simp only: emit_append e1) simp
  with assms(1) have e3: "emit d (drop (Suc i) ps)
      (if is_logical (ps ! i) then p1 else p1 + 1,
       if is_logical (ps ! i) then l1 + 1 else l1, m1(ps ! i ! 0 \<mapsto> ?r)) = (p', l', m')"
    by simp
  have "ps ! i ! 0 \<notin> (\<lambda>x. x ! 0) ` set (drop (Suc i) ps)"
  proof
    assume "ps ! i ! 0 \<in> (\<lambda>x. x ! 0) ` set (drop (Suc i) ps)"
    then obtain x where x: "x \<in> set (drop (Suc i) ps)" "ps ! i ! 0 = x ! 0" by auto
    then obtain j where j: "j < length (drop (Suc i) ps)" "drop (Suc i) ps ! j = x"
      by (auto simp: in_set_conv_nth)
    then have "Suc i + j < length ps" "ps ! (Suc i + j) = x" by auto
    with assms(3) x(2) show False by (metis less_add_Suc1 add_Suc)
  qed
  from emit_other[OF e3 this] show ?thesis using c1 by simp
qed

section \<open>The swaps, and the method as a whole\<close>

lemma relabelled_refl [simp]: "relabelled m m"
  by (auto simp: relabelled_def split: option.splits)

lemma relabelled_trans: "relabelled m m1 \<Longrightarrow> relabelled m1 m2 \<Longrightarrow> relabelled m m2"
  unfolding relabelled_def
  apply (intro allI)
  subgoal for name
    apply (erule allE[of _ name])+
    by (auto split: option.splits)
  done

lemma relabelled_upd:
  "m name = Some r \<Longrightarrow> relabelled m (m(name \<mapsto> r\<lparr>fstab_id := Some (''LABEL='' @ name)\<rparr>))"
  by (auto simp: relabelled_def split: option.splits)

lemma relabelled_dom: "relabelled m m' \<Longrightarrow> dom m' = dom m"
  unfolding relabelled_def dom_def
  apply (rule set_eqI)
  subgoal for x by (erule allE[of _ x]) (auto split: option.splits)
  done

lemma relabelled_number:
  "relabelled m m' \<Longrightarrow> m name = Some r \<Longrightarrow>
     \<exists>r'. m' name = Some r' \<and> number r' = number r \<and> device r' = device r
       \<and> part_size r' = part_size r
       \<and> (fstab_id r' = fstab_id r \<or> fstab_id r' = Some (''LABEL='' @ name))"
  unfolding relabelled_def
  by (erule allE[of _ name]) auto

lemma swap_pass_relabelled:
  "swap_pass run b sws (s, sw) = (s', sw') \<Longrightarrow> relabelled (partEntry s) (partEntry s')"
proof (induction sws arbitrary: s sw)
  case Nil
  then show ?case by simp
next
  case (Cons x xs)
  obtain partdev partnum pp where x: "x = (partdev, partnum, pp)" by (cases x) auto
  show ?case
  proof (cases "partEntry s (pp ! 0)")
    case None
    with Cons.prems x have
      "swap_pass run b xs (log_warning (SwapInitFailed (pp ! 0)) s, sw) = (s', sw')"
      by (simp add: Let_def)
    from Cons.IH[OF this] show ?thesis by (simp add: log_warning_def)
  next
    case (Some r)
    show ?thesis
    proof (cases "b \<and> run (calls s) [''sudo'', ''mkswap'', ''-L'', pp ! 0, device r] \<noteq> 0")
      case True
      with Cons.prems x Some obtain s1 where
        "swap_pass run b xs (log_warning (SwapInitFailed (pp ! 0)) s1, sw) = (s', sw')"
        "partEntry s1 = partEntry s"
        by (auto simp: Let_def subprocess_check_call_def split: if_splits)
      with Cons.IH[OF this(1)] show ?thesis by (simp add: log_warning_def)
    next
      case False
      with Cons.prems x Some obtain s2 sw2 where
        s2: "swap_pass run b xs (s2, sw2) = (s', sw')"
        and p2: "partEntry s2 = (partEntry s)(pp ! 0 \<mapsto> r\<lparr>fstab_id := Some (''LABEL='' @ pp ! 0)\<rparr>)"
        by (auto simp: Let_def subprocess_check_call_def split: if_splits)
      from Cons.IH[OF s2] have "relabelled (partEntry s2) (partEntry s')" .
      then have ih: "relabelled ((partEntry s)(pp ! 0 \<mapsto> r\<lparr>fstab_id := Some (''LABEL='' @ pp ! 0)\<rparr>))
                  (partEntry s')"
        by (simp only: p2)
      show ?thesis
        by (rule relabelled_trans[OF relabelled_upd[of "partEntry s" "pp ! 0" r, OF Some] ih])
    qed
  qed
qed

lemma finish_relabelled:
  "finish run b diskEntry s = (s', sw) \<Longrightarrow> relabelled (partEntry s) (partEntry s')"
  unfolding finish_def Let_def subprocess_call_def
  by (auto split: prod.splits if_splits dest!: swap_pass_relabelled simp: log_warning_def)

lemma doPartitioning_cases:
  assumes "doPartitioning pol gs run diskEntry opts b = (res, disk', s')"
    and "disk_partitions diskEntry = None"
    and "sort_partitions (parse_partitions opts) = Inr ps"
  shows "disk_partitions disk' = Some (partEntry s') \<and>
    ((b \<and> run [] (mklabel_command pol diskEntry) \<noteq> 0
       \<and> res = Some (Uncaught CalledProcessError) \<and> s' = loop_start pol diskEntry b)
     \<or> (\<not> (b \<and> run [] (mklabel_command pol diskEntry) \<noteq> 0) \<and>
        (\<exists>s1. process_parts pol gs run b diskEntry ps (loop_start pol diskEntry b) = (res, s1) \<and>
           (case res of Some f \<Rightarrow> s' = s1
            | None \<Rightarrow> \<exists>sw. finish run b diskEntry s1 = (s', sw) \<and> disk_swaps disk' = Some sw))))"
  using assms unfolding doPartitioning_def loop_start_def mklabel_command_def Let_def
  by (auto split: if_splits prod.splits option.splits simp: initial_state_def)

subsection \<open>The records of the table\<close>

lemma emit_records:
  "emit d ps (p, l, m) = (p', l', m') \<Longrightarrow> 0 < p \<Longrightarrow> 0 < l \<Longrightarrow> m' name = Some r \<Longrightarrow>
     m name = Some r \<or>
     (\<exists>part n. 0 < n \<and> r = partition_record part n (disk_device d) (disk_fstab_id d))"
proof (induction ps arbitrary: p l m)
  case Nil
  then show ?case by simp
next
  case (Cons x xs)
  show ?case
  proof (cases "is_logical x")
    case True
    with Cons.prems(1) have "emit d xs (p, l + 1, m(x ! 0 \<mapsto>
        partition_record x l (disk_device d) (disk_fstab_id d))) = (p', l', m')" by simp
    from Cons.IH[OF this _ _ Cons.prems(4)] Cons.prems(2,3) show ?thesis
      by (auto split: if_splits)
  next
    case False
    with Cons.prems(1) have "emit d xs (p + 1, l, m(x ! 0 \<mapsto>
        partition_record x p (disk_device d) (disk_fstab_id d))) = (p', l', m')" by simp
    from Cons.IH[OF this _ _ Cons.prems(4)] Cons.prems(2,3) show ?thesis
      by (auto split: if_splits)
  qed
qed

lemma doPartitioning_table:
  assumes run: "doPartitioning pol gs run diskEntry opts b = (res, disk', s')"
    and fresh: "disk_partitions diskEntry = None"
  shows "disk_partitions disk' = Some (partEntry s') \<and>
     (\<exists>ps. relabelled (snd (snd (emit diskEntry ps (1, 5, Map.empty)))) (partEntry s'))"
proof (cases "sort_partitions (parse_partitions opts)")
  case (Inl e)
  with run fresh have "disk_partitions disk' = Some (partEntry s')" "partEntry s' = Map.empty"
    unfolding doPartitioning_def Let_def
    by (auto split: if_splits simp: initial_state_def)
  then have "relabelled (snd (snd (emit diskEntry [] (1, 5, Map.empty)))) (partEntry s')" by simp
  with \<open>disk_partitions disk' = Some (partEntry s')\<close> show ?thesis by blast
next
  case (Inr ps)
  from doPartitioning_cases[OF run fresh Inr] have tab: "disk_partitions disk' = Some (partEntry s')"
    and cases: "(b \<and> run [] (mklabel_command pol diskEntry) \<noteq> 0
       \<and> res = Some (Uncaught CalledProcessError) \<and> s' = loop_start pol diskEntry b)
     \<or> (\<not> (b \<and> run [] (mklabel_command pol diskEntry) \<noteq> 0) \<and>
        (\<exists>s1. process_parts pol gs run b diskEntry ps (loop_start pol diskEntry b) = (res, s1) \<and>
           (case res of Some f \<Rightarrow> s' = s1
            | None \<Rightarrow> \<exists>sw. finish run b diskEntry s1 = (s', sw) \<and> disk_swaps disk' = Some sw)))"
    by blast+
  have start: "primary (loop_start pol diskEntry b) = 1" "logical (loop_start pol diskEntry b) = 5"
    "partEntry (loop_start pol diskEntry b) = Map.empty"
    by (simp_all add: loop_start_def initial_state_def)
  from cases show ?thesis
  proof
    assume "b \<and> run [] (mklabel_command pol diskEntry) \<noteq> 0
       \<and> res = Some (Uncaught CalledProcessError) \<and> s' = loop_start pol diskEntry b"
    then have "relabelled (snd (snd (emit diskEntry [] (1, 5, Map.empty)))) (partEntry s')"
      using start by simp
    with tab show ?thesis by blast
  next
    assume "\<not> (b \<and> run [] (mklabel_command pol diskEntry) \<noteq> 0) \<and>
        (\<exists>s1. process_parts pol gs run b diskEntry ps (loop_start pol diskEntry b) = (res, s1) \<and>
           (case res of Some f \<Rightarrow> s' = s1
            | None \<Rightarrow> \<exists>sw. finish run b diskEntry s1 = (s', sw) \<and> disk_swaps disk' = Some sw))"
    then obtain s1 where
      loop: "process_parts pol gs run b diskEntry ps (loop_start pol diskEntry b) = (res, s1)"
      and after: "case res of Some f \<Rightarrow> s' = s1
            | None \<Rightarrow> \<exists>sw. finish run b diskEntry s1 = (s', sw) \<and> disk_swaps disk' = Some sw"
      by blast
    from process_parts_split[OF loop] obtain k sk where
      k: "k \<le> length ps"
      "process_parts pol gs run b diskEntry (take k ps) (loop_start pol diskEntry b) = (None, sk)"
      "case res of None \<Rightarrow> k = length ps \<and> s1 = sk
        | Some f \<Rightarrow> k < length ps \<and> process_part pol gs run b diskEntry (ps ! k) sk = (Some f, s1)"
      by blast
    from process_parts_emit[OF k(2)] start
    have e: "partEntry sk = snd (snd (emit diskEntry (take k ps) (1, 5, Map.empty)))"
      by (metis snd_conv)
    have "relabelled (partEntry sk) (partEntry s')"
    proof (cases res)
      case None
      with k(3) after show ?thesis by (auto dest: finish_relabelled)
    next
      case (Some f)
      with k(3) after have "process_part pol gs run b diskEntry (ps ! k) sk = (Some f, s')" by simp
      from process_part_step[OF this] show ?thesis by (simp add: kept_def)
    qed
    with e tab show ?thesis by auto
  qed
qed

lemma doPartitioning_record:
  assumes run: "doPartitioning pol gs run diskEntry opts b = (res, disk', s')"
    and fresh: "disk_partitions diskEntry = None"
    and r: "partEntry s' name = Some r"
  shows "\<exists>part n. 0 < n \<and>
     number r = n \<and> part_size r = part ! 2 \<and>
     device r = device (partition_record part n (disk_device diskEntry) (disk_fstab_id diskEntry)) \<and>
     (fstab_id r =
        fstab_id (partition_record part n (disk_device diskEntry) (disk_fstab_id diskEntry))
      \<or> fstab_id r = Some (''LABEL='' @ name))"
proof -
  from doPartitioning_table[OF run fresh] obtain ps where
    rel: "relabelled (snd (snd (emit diskEntry ps (1, 5, Map.empty)))) (partEntry s')" by blast
  obtain p' l' m' where e: "emit diskEntry ps (1, 5, Map.empty) = (p', l', m')"
    by (cases "emit diskEntry ps (1, 5, Map.empty)") auto
  with rel have rel': "relabelled m' (partEntry s')" by simp
  from relabelled_dom[OF rel'] r obtain r0 where r0: "m' name = Some r0" by auto
  from relabelled_number[OF rel' r0] r have same: "number r = number r0" "device r = device r0"
    "part_size r = part_size r0"
    "fstab_id r = fstab_id r0 \<or> fstab_id r = Some (''LABEL='' @ name)" by auto
  from emit_records[OF e _ _ r0] obtain part n where
    "0 < n" "r0 = partition_record part n (disk_device diskEntry) (disk_fstab_id diskEntry)"
    by auto
  with same show ?thesis
    by (intro exI[of _ part] exI[of _ n]) (auto simp: partition_record_def Let_def)
qed

section \<open>The requested percentage\<close>

text \<open>
  Rounding to a float keeps a value of the normal range within a relative error of \<open>2\<^sup>-\<^sup>5\<^sup>3\<close>;
  the four roundings of \<^const>\<open>requested_ratio\<close> keep the quotient within \<open>2\<^sup>-\<^sup>5\<^sup>0\<close> of the exact one.
\<close>

lemma floor_log2:
  assumes "0 < x"
  shows "2 powi (floor_log2 x) \<le> x \<and> x < 2 powi (floor_log2 x + 1)"
proof -
  obtain a b where q: "quotient_of x = (a, b)" by (cases "quotient_of x")
  then have b: "0 < b" and x: "x = of_int a / of_int b"
    using quotient_of_denom_pos quotient_of_div by auto
  with assms have a: "0 < a" by (simp add: zero_less_divide_iff)
  let ?e = "bitlen a - bitlen b"
  from bitlen_bounds[OF a] have a1: "2 ^ nat (bitlen a - 1) \<le> a" and a2: "a < 2 ^ nat (bitlen a)" by auto
  from bitlen_bounds[OF b] have b1: "2 ^ nat (bitlen b - 1) \<le> b" and b2: "b < 2 ^ nat (bitlen b)" by auto
  have la: "1 \<le> bitlen a" using a bitlen_eq_zero_iff[of a] bitlen_nonneg[of a] by linarith
  have lb: "1 \<le> bitlen b" using b bitlen_eq_zero_iff[of b] bitlen_nonneg[of b] by linarith
  have A1: "(2::rat) powi (bitlen a - 1) \<le> of_int a"
  proof -
    have "(2::rat) powi (bitlen a - 1) = 2 ^ nat (bitlen a - 1)" using la by (simp add: power_int_def)
    also have "\<dots> = of_int (2 ^ nat (bitlen a - 1))" by simp
    also have "\<dots> \<le> of_int a" using a1 by (simp only: of_int_le_iff)
    finally show ?thesis .
  qed
  have A2: "of_int a < (2::rat) powi (bitlen a)"
  proof -
    have "of_int a < (of_int (2 ^ nat (bitlen a)) :: rat)" using a2 by (simp only: of_int_less_iff)
    also have "\<dots> = 2 powi (bitlen a)" using la by (simp add: power_int_def)
    finally show ?thesis .
  qed
  have B1: "(2::rat) powi (bitlen b - 1) \<le> of_int b"
  proof -
    have "(2::rat) powi (bitlen b - 1) = 2 ^ nat (bitlen b - 1)" using lb by (simp add: power_int_def)
    also have "\<dots> = of_int (2 ^ nat (bitlen b - 1))" by simp
    also have "\<dots> \<le> of_int b" using b1 by (simp only: of_int_le_iff)
    finally show ?thesis .
  qed
  have B2: "of_int b < (2::rat) powi (bitlen b)"
  proof -
    have "of_int b < (of_int (2 ^ nat (bitlen b)) :: rat)" using b2 by (simp only: of_int_less_iff)
    also have "\<dots> = 2 powi (bitlen b)" using lb by (simp add: power_int_def)
    finally show ?thesis .
  qed
  have bq: "(0::rat) < of_int b" using b by simp
  have up: "x < 2 powi (?e + 1)"
  proof -
    have "of_int a < (2::rat) powi (?e + 1) * 2 powi (bitlen b - 1)"
      using A2 by (simp add: power_int_add[symmetric])
    also have "\<dots> \<le> 2 powi (?e + 1) * of_int b"
      using B1 by (intro mult_left_mono) auto
    finally show ?thesis using bq by (simp add: x pos_divide_less_eq)
  qed
  have lo: "2 powi (?e - 1) < x"
  proof -
    have "(2::rat) powi (?e - 1) * of_int b < 2 powi (?e - 1) * 2 powi (bitlen b)"
      using B2 by (intro mult_strict_left_mono) auto
    also have "\<dots> = 2 powi (bitlen a - 1)" by (simp add: power_int_add[symmetric])
    also have "\<dots> \<le> of_int a" by (rule A1)
    finally show ?thesis using bq by (simp add: x pos_less_divide_eq)
  qed
  show ?thesis
  proof (cases "2 powi ?e \<le> x")
    case True
    then have "floor_log2 x = ?e" by (simp add: floor_log2_def q)
    with True up show ?thesis by simp
  next
    case False
    then have "floor_log2 x = ?e - 1" by (simp add: floor_log2_def q)
    with False lo show ?thesis by simp
  qed
qed

lemma round_half_even:
  "\<bar>of_int (round_half_even x) - x\<bar> \<le> 1 / 2"
proof -
  have "of_int \<lfloor>x\<rfloor> \<le> x" "x < of_int \<lfloor>x\<rfloor> + 1" by linarith+
  then show ?thesis by (auto simp: round_half_even_def Let_def)
qed






text \<open>
  The float quotient need not round as the exact one does: for these sizes the divisor is
  rounded down to \<open>25 * 2\<^sup>5\<^sup>0\<close>, the float quotient is exactly 1.5 and rounds to 2, while the
  exact quotient is below 1.5 and rounds to 1.
\<close>

lemma requested_ratio_not_exact:
  "requested_ratio 422212465065984 28147497671065601 = Inr (Finite (3 / 2)) \<and>
   py_round (3 / 2) = 2 \<and>
   py_round (of_int 422212465065984 * 100 / of_int 28147497671065601) = 1"
  by code_simp

subsection \<open>The declarations recorded by a run\<close>

lemma loop_start_simps [simp]:
  "primary (loop_start pol diskEntry b) = 1" "logical (loop_start pol diskEntry b) = 5"
  "partEntry (loop_start pol diskEntry b) = Map.empty"
  "extensionStart (loop_start pol diskEntry b) = - 1"
  by (simp_all add: loop_start_def initial_state_def)

lemma doPartitioning_prefix:
  assumes run: "doPartitioning pol gs run diskEntry opts b = (res, disk', s')"
    and fresh: "disk_partitions diskEntry = None"
    and sorted: "sort_partitions (parse_partitions opts) = Inr ps"
  shows "\<exists>k sk. k \<le> length ps \<and> (res = None \<longrightarrow> k = length ps) \<and>
     emit diskEntry (take k ps) (1, 5, Map.empty) = (primary sk, logical sk, partEntry sk) \<and>
     relabelled (partEntry sk) (partEntry s') \<and>
     ((b \<and> run [] (mklabel_command pol diskEntry) \<noteq> 0 \<and> k = 0
         \<and> res = Some (Uncaught CalledProcessError) \<and> s' = loop_start pol diskEntry b)
      \<or> (\<not> (b \<and> run [] (mklabel_command pol diskEntry) \<noteq> 0) \<and>
          process_parts pol gs run b diskEntry (take k ps) (loop_start pol diskEntry b) = (None, sk) \<and>
          (\<forall>f. res = Some f \<longrightarrow> k < length ps \<and>
                 process_part pol gs run b diskEntry (ps ! k) sk = (Some f, s'))))"
proof -
  let ?s0 = "loop_start pol diskEntry b"
  from doPartitioning_cases[OF run fresh sorted] have
    cases: "(b \<and> run [] (mklabel_command pol diskEntry) \<noteq> 0
       \<and> res = Some (Uncaught CalledProcessError) \<and> s' = ?s0)
     \<or> (\<not> (b \<and> run [] (mklabel_command pol diskEntry) \<noteq> 0) \<and>
        (\<exists>s1. process_parts pol gs run b diskEntry ps ?s0 = (res, s1) \<and>
           (case res of Some f \<Rightarrow> s' = s1
            | None \<Rightarrow> \<exists>sw. finish run b diskEntry s1 = (s', sw) \<and> disk_swaps disk' = Some sw)))"
    by blast
  from cases show ?thesis
  proof
    assume a: "b \<and> run [] (mklabel_command pol diskEntry) \<noteq> 0
       \<and> res = Some (Uncaught CalledProcessError) \<and> s' = ?s0"
    show ?thesis
      apply (rule exI[of _ 0], rule exI[of _ ?s0])
      using a by simp
  next
    assume "\<not> (b \<and> run [] (mklabel_command pol diskEntry) \<noteq> 0) \<and>
        (\<exists>s1. process_parts pol gs run b diskEntry ps ?s0 = (res, s1) \<and>
           (case res of Some f \<Rightarrow> s' = s1
            | None \<Rightarrow> \<exists>sw. finish run b diskEntry s1 = (s', sw) \<and> disk_swaps disk' = Some sw))"
    then obtain s1 where ok: "\<not> (b \<and> run [] (mklabel_command pol diskEntry) \<noteq> 0)"
      and loop: "process_parts pol gs run b diskEntry ps ?s0 = (res, s1)"
      and after: "case res of Some f \<Rightarrow> s' = s1
            | None \<Rightarrow> \<exists>sw. finish run b diskEntry s1 = (s', sw) \<and> disk_swaps disk' = Some sw"
      by blast
    from process_parts_split[OF loop] obtain k sk where
      k: "k \<le> length ps"
      "process_parts pol gs run b diskEntry (take k ps) ?s0 = (None, sk)"
      "case res of None \<Rightarrow> k = length ps \<and> s1 = sk
        | Some f \<Rightarrow> k < length ps \<and> process_part pol gs run b diskEntry (ps ! k) sk = (Some f, s1)"
      by blast
    from process_parts_emit[OF k(2)]
    have e: "emit diskEntry (take k ps) (1, 5, Map.empty) = (primary sk, logical sk, partEntry sk)"
      by simp
    have rel: "relabelled (partEntry sk) (partEntry s')"
    proof (cases res)
      case None
      with k(3) after show ?thesis by (auto dest: finish_relabelled)
    next
      case (Some f)
      with k(3) after have "process_part pol gs run b diskEntry (ps ! k) sk = (Some f, s')" by simp
      from process_part_step[OF this] show ?thesis by (simp add: kept_def)
    qed
    have fail: "\<forall>f. res = Some f \<longrightarrow> k < length ps \<and>
                 process_part pol gs run b diskEntry (ps ! k) sk = (Some f, s')"
      using k(3) after by (auto split: option.splits)
    have full: "res = None \<longrightarrow> k = length ps" using k(3) by (auto split: option.splits)
    show ?thesis
      apply (rule exI[of _ k], rule exI[of _ sk])
      using k(1,2) e rel fail full ok by blast
  qed
qed

lemma expected_number_distinct:
  assumes "i < j" "j < length ps" "is_logical (ps ! i) = is_logical (ps ! j)"
  shows "expected_number ps i < expected_number ps j"
proof -
  have t: "take j ps = take i ps @ ps ! i # take (j - Suc i) (drop (Suc i) ps)"
  proof -
    have "take j ps = take i (take j ps) @ drop i (take j ps)"
      by (rule append_take_drop_id[symmetric])
    also have "take i (take j ps) = take i ps" using assms(1) by (simp add: min_def)
    also have "drop i (take j ps) = take (j - i) (drop i ps)" by (simp add: drop_take)
    also have "drop i ps = ps ! i # drop (Suc i) ps"
      using assms(1,2) by (simp add: Cons_nth_drop_Suc)
    also have "take (j - i) (ps ! i # drop (Suc i) ps) = ps ! i # take (j - Suc i) (drop (Suc i) ps)"
    proof -
      from assms(1) have "j - i = Suc (j - Suc i)" by simp
      then show ?thesis by (simp only: take_Suc_Cons)
    qed
    finally show ?thesis .
  qed
  have l: "length (filter is_logical (take j ps))
      = length (filter is_logical (take i ps)) + (if is_logical (ps ! i) then 1 else 0)
        + length (filter is_logical (take (j - Suc i) (drop (Suc i) ps)))"
    by (subst t) simp
  have n: "length (filter (\<lambda>p. \<not> is_logical p) (take j ps))
      = length (filter (\<lambda>p. \<not> is_logical p) (take i ps)) + (if is_logical (ps ! i) then 0 else 1)
        + length (filter (\<lambda>p. \<not> is_logical p) (take (j - Suc i) (drop (Suc i) ps)))"
    by (subst t) simp
  show ?thesis
    unfolding expected_number_def using assms(3) l n by auto
qed

lemma sort_partitions_sorted:
  "sort_partitions xs = Inr ps \<Longrightarrow>
     sorted (map (\<lambda>x. x ! 1) ps) \<and> mset ps = mset xs \<and> (\<forall>p \<in> set ps. 2 \<le> length p)"
  unfolding sort_partitions_def
  by (cases "\<exists>x\<in>set xs. length x < 2") (auto simp: not_less)

lemma doPartitioning_prefix_table:
  assumes run: "doPartitioning pol gs run diskEntry opts b = (res, disk', s')"
    and fresh: "disk_partitions diskEntry = None"
    and sorted: "sort_partitions (parse_partitions opts) = Inr ps"
  obtains k and sk :: self_state where "k \<le> length ps" "res = None \<longrightarrow> k = length ps"
    "emit diskEntry (take k ps) (1, 5, Map.empty) = (primary sk, logical sk, partEntry sk)"
    "relabelled (partEntry sk) (partEntry s')"
proof -
  from doPartitioning_prefix[OF run fresh sorted] obtain k where
    "\<exists>sk. k \<le> length ps \<and> (res = None \<longrightarrow> k = length ps) \<and>
     emit diskEntry (take k ps) (1, 5, Map.empty) = (primary sk, logical sk, partEntry sk) \<and>
     relabelled (partEntry sk) (partEntry s') \<and>
     ((b \<and> run [] (mklabel_command pol diskEntry) \<noteq> 0 \<and> k = 0
         \<and> res = Some (Uncaught CalledProcessError) \<and> s' = loop_start pol diskEntry b)
      \<or> (\<not> (b \<and> run [] (mklabel_command pol diskEntry) \<noteq> 0) \<and>
          process_parts pol gs run b diskEntry (take k ps) (loop_start pol diskEntry b) = (None, sk) \<and>
          (\<forall>f. res = Some f \<longrightarrow> k < length ps \<and>
                 process_part pol gs run b diskEntry (ps ! k) sk = (Some f, s'))))" ..
  then obtain sk where
    "k \<le> length ps \<and> (res = None \<longrightarrow> k = length ps) \<and>
     emit diskEntry (take k ps) (1, 5, Map.empty) = (primary sk, logical sk, partEntry sk) \<and>
     relabelled (partEntry sk) (partEntry s') \<and>
     ((b \<and> run [] (mklabel_command pol diskEntry) \<noteq> 0 \<and> k = 0
         \<and> res = Some (Uncaught CalledProcessError) \<and> s' = loop_start pol diskEntry b)
      \<or> (\<not> (b \<and> run [] (mklabel_command pol diskEntry) \<noteq> 0) \<and>
          process_parts pol gs run b diskEntry (take k ps) (loop_start pol diskEntry b) = (None, sk) \<and>
          (\<forall>f. res = Some f \<longrightarrow> k < length ps \<and>
                 process_part pol gs run b diskEntry (ps ! k) sk = (Some f, s'))))" ..
  note big = this
  show thesis
    by (rule that[OF big[THEN conjunct1] big[THEN conjunct2, THEN conjunct1]
          big[THEN conjunct2, THEN conjunct2, THEN conjunct1]
          big[THEN conjunct2, THEN conjunct2, THEN conjunct2, THEN conjunct1]])
qed


subsection \<open>The limit on primary and extended partitions\<close>

lemma parse_partitions_nonempty:
  "p \<in> set (parse_partitions options) \<Longrightarrow> [] \<notin> set p"
  unfolding parse_partitions_def by auto

lemma sorted_token_nonempty:
  assumes "sort_partitions (parse_partitions options) = Inr ps" "p \<in> set ps"
  shows "2 \<le> length p \<and> p ! 1 \<noteq> []"
proof -
  from sort_partitions_sorted[OF assms(1)] assms(2)
  have l: "2 \<le> length p" and m: "mset ps = mset (parse_partitions options)" by auto
  from m assms(2) have "p \<in> set (parse_partitions options)"
    by (metis set_mset_mset)
  from parse_partitions_nonempty[OF this] l show ?thesis
    by (metis One_nat_def Suc_1 Suc_le_lessD nth_mem)
qed

lemma handle_exn_not_capacity [simp]: "handle_exn e \<noteq> TooManyPrimaries"
  by (cases e) simp_all




subsection \<open>Logical partitions need an extended one\<close>

lemma same_extension_set_flags:
  "set_flags run dev num flags s = (r, s') \<Longrightarrow> same_extension s s'"
proof (induction flags arbitrary: s)
  case Nil
  then show ?case by (simp add: same_extension_def)
next
  case (Cons f fs)
  then show ?case
    by (auto split: prod.splits option.splits if_splits
        simp: subprocess_check_call_def same_extension_def)
qed

lemma same_extension_createNextPartition_calls:
  "createNextPartition_calls pol run dev num pt part st en fstype cs cmds s = (r, s')
   \<Longrightarrow> same_extension s s'"
  unfolding createNextPartition_calls_def Let_def
  by (auto split: prod.splits option.splits if_splits
      dest!: same_extension_set_flags
      simp: same_extension_def editPartitionWithSfdisk_def subprocess_call_def
        subprocess_check_call_def log_warning_def)

lemma same_extension_createNextPartition:
  "createNextPartition pol run dev num pt part st en s = (r, s') \<Longrightarrow> same_extension s s'"
  unfolding createNextPartition_def
  by (auto split: option.splits if_splits dest: same_extension_createNextPartition_calls
      simp: same_extension_def)

lemma same_extension_createPrimaryPartition:
  "createPrimaryPartition pol gs run dev num part s = (r, s') \<Longrightarrow> same_extension s s'"
  unfolding createPrimaryPartition_def Let_def getRequestedPercentage_def
  by (auto split: prod.splits sum.splits double.splits option.splits if_splits
      dest!: same_extension_createNextPartition simp: same_extension_def log_warning_def)

lemma process_part_no_extended:
  assumes "process_part pol gs run True diskEntry part s = (None, s')"
    and "extensionStart s = - 1" and "last (part ! 1) \<noteq> CHR ''E''"
  shows "extensionStart s' = - 1"
  using assms
  unfolding process_part_def process_logical_def process_primary_def createPartitionEntry_def
    createLogicalPartition_def
  by (auto split: if_splits prod.splits option.splits
      dest!: same_extension_createPrimaryPartition simp: same_extension_def)

lemma process_parts_no_extended:
  "process_parts pol gs run True diskEntry ps s = (None, s') \<Longrightarrow> extensionStart s = - 1 \<Longrightarrow>
     \<forall>p \<in> set ps. last (p ! 1) \<noteq> CHR ''E'' \<Longrightarrow> extensionStart s' = - 1"
proof (induction ps arbitrary: s)
  case Nil
  then show ?case by simp
next
  case (Cons x xs)
  from Cons.prems(1) obtain s1 where
    s1: "process_part pol gs run True diskEntry x s = (None, s1)"
    and rest: "process_parts pol gs run True diskEntry xs s1 = (None, s')"
    by (auto split: prod.splits option.splits)
  from process_part_no_extended[OF s1 Cons.prems(2)] Cons.prems(3)
  have "extensionStart s1 = - 1" by simp
  from Cons.IH[OF rest this] Cons.prems(3) show ?case by simp
qed

lemma logical_without_extended:
  assumes "extensionStart s = - 1" "is_logical part" "2 \<le> length part" "part ! 1 \<noteq> []"
  shows "process_part pol gs run True diskEntry part s = (Some LogicalNotAllowed, s)
       \<or> process_part pol gs run True diskEntry part s = (Some BadLogicalFormat, s)
       \<or> process_part pol gs run True diskEntry part s = (Some (Uncaught SystemError), s)"
  using assms
  unfolding process_part_def process_logical_def createLogicalPartition_def is_logical_def
  by auto

section \<open>The commands that set flags\<close>

lemma flags_ok_Nil [simp]: "flags_ok run []"
  by (simp add: flags_ok_def)


lemma is_flag_command_flag_command [simp]: "is_flag_command (flag_command dev num flag)"
  by (simp add: is_flag_command_def flag_command_def)





lemma flag_post_None: "flag_post run None s' \<Longrightarrow> flags_ok run (calls s')"
  by (simp add: flag_post_def)




lemma flag_post_log_warning [simp]: "flag_post run r (log_warning w s) = flag_post run r s"
  by (simp add: flag_post_def log_warning_def)

lemma calls_log_warning [simp]: "calls (log_warning w s) = calls s"
  by (simp add: log_warning_def)















lemma flag_abort_entry:
  assumes "createPartitionEntry part num dev fid s = (r, s')" "flags_ok run (calls s)"
  shows "flags_ok run (calls s')" "calls s' = calls s"
  using assms by (auto simp: createPartitionEntry_def split: if_splits)













section \<open>The loop over the mount points\<close>

lemma split_on_nonempty: "split_on sep s \<noteq> []"
  by (induction s) (auto split: list.splits)

lemma length_split_on:
  "length (split_on sep s) = Suc (length (filter (\<lambda>c. c = sep) s))"
proof (induction s)
  case Nil
  then show ?case by simp
next
  case (Cons c cs)
  then show ?case
    using split_on_nonempty[of sep cs] by (cases "split_on sep cs") auto
qed

lemma fs_step_fsinfo [simp]:
  "fs_step m r (st\<lparr>fsinfoEntry := x\<rparr>) st' = fs_step m r st st'"
  by (cases r) (simp_all add: fs_step_def)

lemma fs_step_fail [simp]: "fs_step m (Some f) st st"
  by (simp add: fs_step_def)

lemma format_and_record_fsEntry:
  "format_and_record run b mountpt fstype fsoptions diskname partname diskEntry partTable
       dev fslabel target_id st = (r, st') \<Longrightarrow> fs_step mountpt r st st'"
  unfolding format_and_record_def Let_def fs_step_def
  by (auto split: if_splits option.splits prod.splits)

lemma process_mountpt_fsEntry:
  "process_mountpt run b options mountpt st = (r, st') \<Longrightarrow> fs_step mountpt r st st'"
  unfolding process_mountpt_def Let_def
  by (auto split: if_splits option.splits dest!: format_and_record_fsEntry
      simp: fs_step_def[of _ "Some _"])

lemma process_mountpts_fsEntry:
  "process_mountpts run b options ms st = (r, st') \<Longrightarrow>
     \<exists>k \<le> length ms. (r = None \<longrightarrow> k = length ms) \<and>
        dom (fsEntry st') = dom (fsEntry st) \<union> set (take k ms)"
proof (induction ms arbitrary: st)
  case Nil
  then show ?case by simp
next
  case (Cons m ms)
  obtain r1 st1 where c: "process_mountpt run b options m st = (r1, st1)"
    by (cases "process_mountpt run b options m st") auto
  show ?case
  proof (cases r1)
    case (Some f)
    with c Cons.prems have "r = Some f" "st' = st1" by auto
    with process_mountpt_fsEntry[OF c] Some show ?thesis
      by (intro exI[of _ 0]) (simp add: fs_step_def)
  next
    case None
    with c Cons.prems have "process_mountpts run b options ms st1 = (r, st')" by simp
    from Cons.IH[OF this] obtain k where
      k: "k \<le> length ms" "r = None \<longrightarrow> k = length ms"
      "dom (fsEntry st') = dom (fsEntry st1) \<union> set (take k ms)" by blast
    from process_mountpt_fsEntry[OF c] None
    have "dom (fsEntry st1) = insert m (dom (fsEntry st))" by (simp add: fs_step_def)
    with k show ?thesis
      by (intro exI[of _ "Suc k"]) auto
  qed
qed

lemma sorted_key_less_index:
  assumes "sorted (map f xs)" "i < length xs" "j < length xs" "f (xs ! i) < f (xs ! j)"
  shows "i < j"
proof (rule ccontr)
  assume "\<not> i < j"
  then have "j \<le> i" by simp
  with assms(1,2) have "map f xs ! j \<le> map f xs ! i"
    by (intro sorted_nth_mono) simp_all
  with assms(2,3,4) show False by simp
qed

section \<open>The claims\<close>

subsection \<open>C6: the size resolver\<close>




subsection \<open>C9: the device path of a partition\<close>

text \<open>
  C9: every record that \<^verbatim>\<open>_doPartitioning\<close> leaves in the disk's table, in either mode and
  whether it passes or fails, has a number \<open>n > 0\<close>, and its device is the disk's device
  followed by \<open>n\<close> in decimal, with a \<^verbatim>\<open>p\<close> between them exactly when the disk's device
  contains \<^verbatim>\<open>loop\<close> (the source's test for a loop device): \<^verbatim>\<open>/dev/loop0\<close> yields
  \<^verbatim>\<open>/dev/loop0p<n>\<close>, \<^verbatim>\<open>/dev/sda\<close> yields \<^verbatim>\<open>/dev/sda<n>\<close>.
\<close>

theorem C9_device_path:
  assumes "doPartitioning pol getSizeInBytes run diskEntry options b = (res, disk', s')"
    and "disk_partitions diskEntry = None"
    and "partEntry s' name = Some r"
  shows "disk_partitions disk' = Some (partEntry s') \<and> 0 < number r \<and>
     device r = disk_device diskEntry
                @ (if contains ''loop'' (disk_device diskEntry) then ''p'' else []) @ fmt_d (number r) \<and>
     (disk_device diskEntry = ''/dev/loop0'' \<longrightarrow> device r = ''/dev/loop0p'' @ fmt_d (number r)) \<and>
     (disk_device diskEntry = ''/dev/sda'' \<longrightarrow> device r = ''/dev/sda'' @ fmt_d (number r))"
proof -
  from doPartitioning_table[OF assms(1,2)] have t: "disk_partitions disk' = Some (partEntry s')"
    by blast
  from doPartitioning_record[OF assms] obtain part n where
    n: "0 < n" "number r = n"
    "device r = device (partition_record part n (disk_device diskEntry) (disk_fstab_id diskEntry))"
    by blast
  then have d: "device r = disk_device diskEntry
      @ (if contains ''loop'' (disk_device diskEntry) then ''p'' else []) @ fmt_d (number r)"
    by (simp add: partition_record_def Let_def)
  have l: "contains ''loop'' ''/dev/loop0''" by code_simp
  have a: "\<not> contains ''loop'' ''/dev/sda''" by code_simp
  from t n d l a show ?thesis by auto
qed

text \<open>The swap partition of the example, on the loop device.\<close>

theorem C9_device_path_witness:
  "disk_partitions loop0 = None \<and>
   partEntry (snd (snd (doPartitioning msdos example_sizes all_succeed loop0 root_and_swap True)))
     ''swap'' = Some \<lparr>number = 2, part_size = ''2G'', device = ''/dev/loop0p2'',
                     fstab_id = Some ''LABEL=swap''\<rparr> \<and>
   ''/dev/loop0p2'' = ''/dev/loop0p'' @ fmt_d 2"
proof -
  let ?run = "doPartitioning msdos example_sizes all_succeed loop0 root_and_swap True"
  let ?r = "\<lparr>number = 2, part_size = ''2G'', device = ''/dev/loop0p2'',
             fstab_id = Some ''LABEL=swap''\<rparr>"
  have h1: "?run = (fst ?run, fst (snd ?run), snd (snd ?run))" by simp
  have h2: "disk_partitions loop0 = None" by code_simp
  have h3: "partEntry (snd (snd ?run)) ''swap'' = Some ?r" by code_simp
  have dev: "disk_device loop0 = ''/dev/loop0''" by code_simp
  from C9_device_path[OF h1 h2 h3] dev h2 h3 show ?thesis by simp
qed

subsection \<open>C7: the fstab-id of a partition\<close>

text \<open>
  C7, as claimed: the disk's fstab-id is propagated unless it contains \<^verbatim>\<open>=\<close>, and then a
  numbered reference is derived. The source does the opposite: on a disk known as
  \<^verbatim>\<open>UUID=0a1b\<close> the record has no fstab-id at all (\<^verbatim>\<open>None\<close>), where the claim has
  \<^verbatim>\<open>UUID=0a1b1\<close>; on a disk known as \<^verbatim>\<open>/dev/sda\<close> the record has the numbered
  \<^verbatim>\<open>/dev/sda1\<close>, where the claim has \<^verbatim>\<open>/dev/sda\<close>.
\<close>

theorem C7_counterexample:
  "map_option fstab_id
     (partEntry (snd (snd (doPartitioning msdos example_sizes all_succeed sdb_uuid root_and_swap
        False))) ''root'') = Some None \<and>
   claimed_fstab_id (disk_fstab_id sdb_uuid) 1 = Some ''UUID=0a1b1'' \<and>
   map_option fstab_id
     (partEntry (snd (snd (doPartitioning msdos example_sizes all_succeed sda root_and_swap
        False))) ''root'') = Some (Some ''/dev/sda1'') \<and>
   claimed_fstab_id (disk_fstab_id sda) 1 = Some ''/dev/sda''"
  by code_simp

text \<open>
  C7, amended: the fstab-id of every record in the table is the numbered reference derived from
  the disk's fstab-id (the identifier, a \<^verbatim>\<open>p\<close> when it contains \<^verbatim>\<open>loop\<close>, the partition
  number) when the disk's fstab-id does not contain \<^verbatim>\<open>=\<close>, and is left unset (\<^verbatim>\<open>None\<close>)
  when it does; unless the loop over the swaps has replaced it by \<^verbatim>\<open>LABEL=<name>\<close>.
\<close>

theorem C7_fstab_id:
  assumes "doPartitioning pol getSizeInBytes run diskEntry options b = (res, disk', s')"
    and "disk_partitions diskEntry = None"
    and "partEntry s' name = Some r"
  shows "fstab_id r =
           (if contains ''='' (disk_fstab_id diskEntry) then None
            else Some (disk_fstab_id diskEntry
                       @ (if contains ''loop'' (disk_fstab_id diskEntry) then ''p'' else [])
                       @ fmt_d (number r)))
         \<or> fstab_id r = Some (''LABEL='' @ name)"
proof -
  from doPartitioning_record[OF assms] obtain part n where
    n: "0 < n" "number r = n"
    "fstab_id r =
        fstab_id (partition_record part n (disk_device diskEntry) (disk_fstab_id diskEntry))
      \<or> fstab_id r = Some (''LABEL='' @ name)"
    by blast
  then show ?thesis
    by (auto simp: partition_record_def Let_def)
qed

text \<open>The root partition of the example, on the disk known by a UUID.\<close>

theorem C7_fstab_id_witness:
  "disk_partitions sdb_uuid = None \<and>
   partEntry (snd (snd (doPartitioning msdos example_sizes all_succeed sdb_uuid root_and_swap True)))
     ''root'' = Some \<lparr>number = 1, part_size = ''10G'', device = ''/dev/sdb1'', fstab_id = None\<rparr> \<and>
   contains ''='' (disk_fstab_id sdb_uuid)"
proof -
  let ?run = "doPartitioning msdos example_sizes all_succeed sdb_uuid root_and_swap True"
  let ?r = "\<lparr>number = 1, part_size = ''10G'', device = ''/dev/sdb1'', fstab_id = None\<rparr>"
  have h1: "?run = (fst ?run, fst (snd ?run), snd (snd ?run))" by simp
  have h2: "disk_partitions sdb_uuid = None" by code_simp
  have h3: "partEntry (snd (snd ?run)) ''root'' = Some ?r" by code_simp
  have c: "contains ''='' (disk_fstab_id sdb_uuid)" by code_simp
  from C7_fstab_id[OF h1 h2 h3] c h2 h3 show ?thesis by simp
qed

subsection \<open>C2: the order of processing and the numbering\<close>

text \<open>
  C2: the loop runs over the declarations sorted by their order token (\<open>\<le>\<close> on strings is the
  lexicographic order on the character codes), whatever their names. The declarations recorded
  are a prefix of that list (all of it when the method passes). The declaration at position
  \<open>i\<close> is recorded under its name with the number \<open>expected_number ps i\<close>: one more than the
  count of primary and extended declarations before it, or five more than the count of logical
  declarations before it; the order token decides only the class. Two declarations of the same
  class never get the same number. (A name that a later declaration uses again is overwritten
  in the table, which is keyed by name.)
\<close>

theorem C2_order_and_numbers:
  assumes run: "doPartitioning pol getSizeInBytes run diskEntry options b = (res, disk', s')"
    and fresh: "disk_partitions diskEntry = None"
    and sorted: "sort_partitions (parse_partitions options) = Inr ps"
  shows "sorted (map (\<lambda>x. x ! 1) ps) \<and> mset ps = mset (parse_partitions options) \<and>
     disk_partitions disk' = Some (partEntry s') \<and>
     (\<exists>k \<le> length ps. (res = None \<longrightarrow> k = length ps) \<and>
        dom (partEntry s') = (\<lambda>x. x ! 0) ` set (take k ps) \<and>
        (\<forall>i<k. (\<forall>j<k. i < j \<longrightarrow> ps ! j ! 0 \<noteq> ps ! i ! 0) \<longrightarrow>
           (\<exists>r. partEntry s' (ps ! i ! 0) = Some r \<and> number r = expected_number ps i)) \<and>
        (\<forall>i<k. \<forall>j<k. i \<noteq> j \<and> is_logical (ps ! i) = is_logical (ps ! j) \<longrightarrow>
           expected_number ps i \<noteq> expected_number ps j))"
proof -
  from sort_partitions_sorted[OF sorted]
  have s: "sorted (map (\<lambda>x. x ! 1) ps)" "mset ps = mset (parse_partitions options)" by simp_all
  from doPartitioning_table[OF run fresh]
  have t: "disk_partitions disk' = Some (partEntry s')" by blast
  from doPartitioning_prefix_table[OF run fresh sorted] obtain k and sk :: self_state where
    k: "k \<le> length ps" "res = None \<longrightarrow> k = length ps"
    and e: "emit diskEntry (take k ps) (1, 5, Map.empty) = (primary sk, logical sk, partEntry sk)"
    and rel: "relabelled (partEntry sk) (partEntry s')"
    by blast
  have d: "dom (partEntry s') = (\<lambda>x. x ! 0) ` set (take k ps)"
    using relabelled_dom[OF rel] emit_dom[OF e] by simp
  have n: "\<exists>r. partEntry s' (ps ! i ! 0) = Some r \<and> number r = expected_number ps i"
    if i: "i < k" and last: "\<forall>j<k. i < j \<longrightarrow> ps ! j ! 0 \<noteq> ps ! i ! 0" for i
  proof -
    from i k(1) have il: "i < length (take k ps)" by simp
    have nth: "\<And>j. j < k \<Longrightarrow> take k ps ! j = ps ! j" by simp
    have l: "\<forall>j<length (take k ps). i < j \<longrightarrow> take k ps ! j ! 0 \<noteq> take k ps ! i ! 0"
      using last i k(1) by simp
    have tk: "take i (take k ps) = take i ps" using i by (simp add: min_def)
    from emit_at[OF e il l]
    have "partEntry sk (ps ! i ! 0) = Some (partition_record (ps ! i) (expected_number ps i)
             (disk_device diskEntry) (disk_fstab_id diskEntry))"
      using i tk by (simp add: expected_number_def)
    from relabelled_number[OF rel this] show ?thesis
      by (auto simp: partition_record_def Let_def)
  qed
  have u: "expected_number ps i \<noteq> expected_number ps j"
    if "i < k" "j < k" "i \<noteq> j" "is_logical (ps ! i) = is_logical (ps ! j)" for i j
  proof (cases "i < j")
    case True
    with that k(1) expected_number_distinct[of i j ps] show ?thesis by simp
  next
    case False
    with that have "j < i" by simp
    with that k(1) expected_number_distinct[of j i ps] show ?thesis by simp
  qed
  have "\<exists>k \<le> length ps. (res = None \<longrightarrow> k = length ps) \<and>
        dom (partEntry s') = (\<lambda>x. x ! 0) ` set (take k ps) \<and>
        (\<forall>i<k. (\<forall>j<k. i < j \<longrightarrow> ps ! j ! 0 \<noteq> ps ! i ! 0) \<longrightarrow>
           (\<exists>r. partEntry s' (ps ! i ! 0) = Some r \<and> number r = expected_number ps i)) \<and>
        (\<forall>i<k. \<forall>j<k. i \<noteq> j \<and> is_logical (ps ! i) = is_logical (ps ! j) \<longrightarrow>
           expected_number ps i \<noteq> expected_number ps j)"
  proof (intro exI[of _ k] conjI allI impI)
    show "k \<le> length ps" by (rule k(1))
    show "k = length ps" if "res = None" using that k(2) by simp
    show "dom (partEntry s') = (\<lambda>x. x ! 0) ` set (take k ps)" by (rule d)
    show "\<exists>r. partEntry s' (ps ! i ! 0) = Some r \<and> number r = expected_number ps i"
      if "i < k" "\<forall>j<k. i < j \<longrightarrow> ps ! j ! 0 \<noteq> ps ! i ! 0" for i
      using that by (rule n)
    show "expected_number ps i \<noteq> expected_number ps j"
      if "i < k" "j < k" "i \<noteq> j \<and> is_logical (ps ! i) = is_logical (ps ! j)" for i j
      using that u[of i j] by simp
  qed
  with s t show ?thesis by simp
qed

text \<open>
  Five declarations whose names, order tokens and dictionary order all differ: they are
  processed in the order of the tokens, and the first logical one, \<^verbatim>\<open>3E:1L\<close>, is numbered 5.
\<close>

theorem C2_order_and_numbers_witness:
  "disk_partitions sda = None \<and>
   sort_partitions (parse_partitions with_logicals) = Inr with_logicals_sorted \<and>
   sorted (map (\<lambda>x. x ! 1) with_logicals_sorted) \<and>
   mset with_logicals_sorted = mset (parse_partitions with_logicals) \<and>
   map_option number
     (partEntry (snd (snd (doPartitioning msdos example_sizes all_succeed sda with_logicals False)))
        ''home'') = Some 5"
proof -
  let ?run = "doPartitioning msdos example_sizes all_succeed sda with_logicals False"
  have h1: "?run = (fst ?run, fst (snd ?run), snd (snd ?run))" by simp
  have h2: "disk_partitions sda = None" by code_simp
  have h3: "sort_partitions (parse_partitions with_logicals) = Inr with_logicals_sorted"
    by code_simp
  have n: "map_option number (partEntry (snd (snd ?run)) ''home'') = Some 5"
    by code_simp
  note c = C2_order_and_numbers[OF h1 h2 h3]
  from c[THEN conjunct1] c[THEN conjunct2, THEN conjunct1] h2 h3 n show ?thesis
    by (intro conjI)
qed

subsection \<open>C3: a fifth primary or extended partition\<close>



subsection \<open>C4: a logical partition without an extended one\<close>

text \<open>
  C4, as claimed: every declaration set with a logical declaration and no extended one before
  it fails. In reuse mode (\<^verbatim>\<open>use_system_build\<close>) it does not: the test is made in
  \<^verbatim>\<open>_createLogicalPartition\<close>, which only build mode calls, so the method passes and records
  the logical partition with number 5.
\<close>

theorem C4_counterexample:
  "fst (doPartitioning msdos example_sizes all_succeed sda lone_logical False) = None \<and>
   partEntry (snd (snd (doPartitioning msdos example_sizes all_succeed sda lone_logical False)))
     ''home'' = Some \<lparr>number = 5, part_size = ''2G'', device = ''/dev/sda5'',
                     fstab_id = Some ''/dev/sda5''\<rparr>"
  by code_simp

text \<open>
  C4, amended: in build mode, let a logical declaration \<open>d\<close> be preceded, in the order of
  processing, by no declaration whose token ends in \<^verbatim>\<open>E\<close>. Then the method never passes. If
  the table was created and the declarations before \<open>d\<close> were processed without failure, the
  method ends at \<open>d\<close>: with the exit for a disallowed logical partition, with the exit for a
  malformed token, or with the \<^verbatim>\<open>SystemError\<close> that \<^verbatim>\<open>_createLogicalPartition\<close> raises and
  nothing catches; and the final fields, the log of commands among them, are those reached
  before \<open>d\<close>: no command has been issued for it.
\<close>

theorem C4_logical_without_extended:
  assumes run: "doPartitioning pol getSizeInBytes run diskEntry options True = (res, disk', s')"
    and fresh: "disk_partitions diskEntry = None"
    and sorted: "sort_partitions (parse_partitions options) = Inr (pre @ d # post)"
    and noext: "\<forall>p \<in> set pre. last (p ! 1) \<noteq> CHR ''E''"
    and logical: "is_logical d"
  shows "res \<noteq> None \<and>
     (\<forall>s1. run [] (mklabel_command pol diskEntry) = 0 \<and>
           process_parts pol getSizeInBytes run True diskEntry pre (loop_start pol diskEntry True)
             = (None, s1) \<longrightarrow>
           s' = s1 \<and>
           (res = Some LogicalNotAllowed \<or> res = Some BadLogicalFormat
            \<or> res = Some (Uncaught SystemError)))"
proof -
  let ?s0 = "loop_start pol diskEntry True"
  let ?pp = "process_parts pol getSizeInBytes run True diskEntry"
  from sorted_token_nonempty[OF sorted, of d] have dn: "2 \<le> length d" "d ! 1 \<noteq> []" by auto
  from doPartitioning_cases[OF run fresh sorted] have
    cases: "(True \<and> run [] (mklabel_command pol diskEntry) \<noteq> 0
       \<and> res = Some (Uncaught CalledProcessError) \<and> s' = ?s0)
     \<or> (\<not> (True \<and> run [] (mklabel_command pol diskEntry) \<noteq> 0) \<and>
        (\<exists>s1. ?pp (pre @ d # post) ?s0 = (res, s1) \<and>
           (case res of Some f \<Rightarrow> s' = s1
            | None \<Rightarrow> \<exists>sw. finish run True diskEntry s1 = (s', sw) \<and> disk_swaps disk' = Some sw)))"
    by (rule conjunct2)
  show ?thesis
  proof (cases "run [] (mklabel_command pol diskEntry) = 0")
    case False
    with cases show ?thesis by auto
  next
    case True
    with cases obtain sl where
      loop: "?pp (pre @ d # post) ?s0 = (res, sl)"
      and after: "case res of Some f \<Rightarrow> s' = sl
            | None \<Rightarrow> \<exists>sw. finish run True diskEntry sl = (s', sw) \<and> disk_swaps disk' = Some sw"
      by auto
    obtain rp sp where pre: "?pp pre ?s0 = (rp, sp)" by (cases "?pp pre ?s0") auto
    show ?thesis
    proof (cases rp)
      case (Some f)
      with loop pre have "res = Some f" by (simp add: process_parts_append)
      with pre Some show ?thesis by auto
    next
      case None
      with pre have p: "?pp pre ?s0 = (None, sp)" by simp
      from process_parts_no_extended[OF p _ noext] have ext: "extensionStart sp = - 1" by simp
      from logical_without_extended[OF ext logical dn, of pol getSizeInBytes run diskEntry]
      obtain f where f: "process_part pol getSizeInBytes run True diskEntry d sp = (Some f, sp)"
        "f = LogicalNotAllowed \<or> f = BadLogicalFormat \<or> f = Uncaught SystemError"
        by auto
      from loop p f(1) have "res = Some f" "sl = sp" by (simp_all add: process_parts_append)
      with after f(2) p show ?thesis by auto
    qed
  qed
qed

text \<open>The lone logical partition in build mode: only the table has been created.\<close>

theorem C4_logical_without_extended_witness:
  "disk_partitions sda = None \<and>
   sort_partitions (parse_partitions lone_logical) = Inr ([] @ home_logical # []) \<and>
   is_logical home_logical \<and>
   fst (doPartitioning msdos example_sizes all_succeed sda lone_logical True)
     = Some (Uncaught SystemError) \<and>
   snd (snd (doPartitioning msdos example_sizes all_succeed sda lone_logical True))
     = loop_start msdos sda True \<and>
   calls (loop_start msdos sda True)
     = [[''sudo'', ''parted'', ''-s'', ''/dev/sda'', ''--'', ''mklabel'', ''msdos'']]"
proof -
  let ?run = "doPartitioning msdos example_sizes all_succeed sda lone_logical True"
  have h1: "?run = (fst ?run, fst (snd ?run), snd (snd ?run))" by simp
  have h2: "disk_partitions sda = None" by code_simp
  have h3: "sort_partitions (parse_partitions lone_logical) = Inr ([] @ home_logical # [])"
    by code_simp
  have h4: "\<forall>p \<in> set []. last (p ! 1) \<noteq> CHR ''E''" by simp
  have h5: "is_logical home_logical" by code_simp
  have r: "fst ?run = Some (Uncaught SystemError)" by code_simp
  have c: "calls (loop_start msdos sda True)
     = [[''sudo'', ''parted'', ''-s'', ''/dev/sda'', ''--'', ''mklabel'', ''msdos'']]"
    by code_simp
  have p: "all_succeed [] (mklabel_command msdos sda) = 0 \<and>
           process_parts msdos example_sizes all_succeed True sda [] (loop_start msdos sda True)
             = (None, loop_start msdos sda True)"
    by (simp add: all_succeed_def)
  from C4_logical_without_extended[OF h1 h2 h3 h4 h5] p
  have "snd (snd ?run) = loop_start msdos sda True" by blast
  with h2 h3 h5 r c show ?thesis by (intro conjI)
qed

subsection \<open>C1: the extents of the partitions\<close>

text \<open>
  C1 does not hold of the source: \<^verbatim>\<open>_createPrimaryPartition\<close> ends with
  \<^verbatim>\<open>self.startPercent = end\<close>, \<^verbatim>\<open>_createExtendedPartition\<close> does not, so a primary partition
  created after the extended one starts where the extended one starts. With an extended
  partition of 50G and then a primary one of 10G on a disk of 100G, the build passes and asks
  for the extended partition from sector 2048 to 50 per cent and for the primary one from
  sector 2048 to 10 per cent: the two overlap.
\<close>

theorem C1_extended_overlaps_primary:
  "fst (build msdos example_sizes all_succeed sda extended_then_primary) = None \<and>
   filter (\<lambda>c. ''mkpart'' \<in> set c)
     (calls (snd (snd (build msdos example_sizes all_succeed sda extended_then_primary))))
   = [[''sudo'', ''parted'', ''-s'', ''-a'', ''optimal'', ''/dev/sda'', ''--'', ''mkpart'',
       ''extended'', ''2048s'', ''50%''],
      [''sudo'', ''parted'', ''-s'', ''-a'', ''optimal'', ''/dev/sda'', ''--'', ''mkpart'',
       ''primary'', ''ext2'', ''2048s'', ''10%'']]"
  by code_simp

subsection \<open>C5: reuse mode against build mode\<close>

text \<open>
  C5 does not hold of the source: the swaps are registered in \<^verbatim>\<open>_createNextPartition\<close>, which
  only build mode calls, so in reuse mode the loop over \<^verbatim>\<open>self.swaps\<close> has nothing to do
  (although it is written for both modes: only its \<^verbatim>\<open>mkswap\<close> call is under \<^verbatim>\<open>if build\<close>).
  The record of a swap partition gets the fstab-id \<^verbatim>\<open>LABEL=swap\<close> in build mode and keeps
  \<^verbatim>\<open>/dev/sda2\<close> in reuse mode.
\<close>

theorem C5_swap_fstab_id_differs:
  "fst (build msdos example_sizes all_succeed sda root_and_swap) = None \<and>
   partEntry (snd (snd (build msdos example_sizes all_succeed sda root_and_swap))) ''swap''
     = Some \<lparr>number = 2, part_size = ''2G'', device = ''/dev/sda2'',
             fstab_id = Some ''LABEL=swap''\<rparr> \<and>
   fst (use_system_build msdos example_sizes all_succeed sda root_and_swap) = None \<and>
   partEntry (snd (snd (use_system_build msdos example_sizes all_succeed sda root_and_swap)))
     ''swap''
     = Some \<lparr>number = 2, part_size = ''2G'', device = ''/dev/sda2'',
             fstab_id = Some ''/dev/sda2''\<rparr>"
  by code_simp

subsection \<open>C8: the flags of a partition\<close>




subsection \<open>C10: the order of the mount points\<close>

text \<open>
  C10, as claimed: \<^verbatim>\<open>/\<close> is formatted and recorded before \<^verbatim>\<open>/boot\<close>. The sort key is
  \<^verbatim>\<open>len(x.split('/'))\<close>, which is 2 for \<^verbatim>\<open>/\<close> (two empty components) as for \<^verbatim>\<open>/boot\<close>, and
  the sort is stable: when the dictionary yields \<^verbatim>\<open>/boot\<close> first, \<^verbatim>\<open>/boot\<close> is formatted
  first.
\<close>

theorem C10_counterexample:
  "mountpts boot_then_root = Inr [''/boot'', ''/''] \<and>
   fs_calls (snd (createFileSystemRecord all_succeed [''mydisk'' \<mapsto> mydisk] False boot_then_root
      True))
   = [[''sudo'', ''mkfs'', ''-t'', ''ext2'', ''/dev/sda1''],
      [''sudo'', ''e2label'', ''/dev/sda1'', ''boot''],
      [''sudo'', ''mkfs'', ''-t'', ''ext4'', ''/dev/sda2''],
      [''sudo'', ''e2label'', ''/dev/sda2'', ''root''], [''sync'']]"
  by code_simp

text \<open>
  C10, amended: the loop runs over the mount points (the option keys that start with \<^verbatim>\<open>/\<close>)
  in ascending order of \<^verbatim>\<open>len(x.split('/'))\<close>, which is one more than the number of \<^verbatim>\<open>/\<close>
  in the path; mount points with the same number of \<^verbatim>\<open>/\<close> keep the order in which the
  dictionary yields them. So a mount point with fewer \<^verbatim>\<open>/\<close> than another comes before it, and
  the mount points recorded in the \<^verbatim>\<open>filesystem\<close> table are at any time a prefix of that
  order (all of them when the method passes).
\<close>

theorem C10_mount_point_order:
  assumes run: "createFileSystemRecord run system_disks False options b = (res, st)"
    and ms: "mountpts options = Inr ms"
  shows "sorted (map (\<lambda>x. length (split_on CHR ''/'' x)) ms) \<and>
     mset ms = mset [x \<leftarrow> map fst options. hd x = CHR ''/''] \<and>
     (\<forall>n. [x \<leftarrow> ms. length (split_on CHR ''/'' x) = n]
          = [x \<leftarrow> map fst options. hd x = CHR ''/'' \<and> length (split_on CHR ''/'' x) = n]) \<and>
     (\<forall>x. length (split_on CHR ''/'' x) = Suc (length (filter (\<lambda>c. c = CHR ''/'') x))) \<and>
     (\<forall>i j. i < length ms \<and> j < length ms \<and>
            length (filter (\<lambda>c. c = CHR ''/'') (ms ! i)) < length (filter (\<lambda>c. c = CHR ''/'') (ms ! j))
            \<longrightarrow> i < j) \<and>
     (\<exists>k \<le> length ms. (res = None \<longrightarrow> k = length ms) \<and> dom (fsEntry st) = set (take k ms))"
proof -
  let ?key = "\<lambda>x. length (split_on CHR ''/'' x)"
  let ?keys = "[x \<leftarrow> map fst options. hd x = CHR ''/'']"
  from ms have m: "ms = sort_key ?key ?keys"
    by (auto simp: mountpts_def split: if_splits)
  have s: "sorted (map ?key ms)" by (simp add: m)
  have p: "mset ms = mset ?keys" by (simp add: m)
  have stable: "[x \<leftarrow> ms. ?key x = n] = [x \<leftarrow> map fst options. hd x = CHR ''/'' \<and> ?key x = n]" for n
    using sort_key_stable[of ?key n ?keys] by (simp add: m conj_commute)
  have idx: "i < j" if "i < length ms" "j < length ms"
    "length (filter (\<lambda>c. c = CHR ''/'') (ms ! i)) < length (filter (\<lambda>c. c = CHR ''/'') (ms ! j))"
    for i j
    using sorted_key_less_index[OF s that(1,2)] that(3) by (simp add: length_split_on)
  from run ms obtain st1 where
    loop: "process_mountpts run b options ms
       \<lparr> disks = system_disks, fsEntry = Map.empty, fsinfoEntry = Map.empty,
         fs_calls = [], fs_warnings = [] \<rparr> = (res, st1)"
    and f: "fsEntry st = fsEntry st1"
    unfolding createFileSystemRecord_def Let_def
    by (auto split: prod.splits option.splits)
  from process_mountpts_fsEntry[OF loop] f
  have rec: "\<exists>k \<le> length ms. (res = None \<longrightarrow> k = length ms) \<and> dom (fsEntry st) = set (take k ms)"
    by simp
  from s p stable idx rec length_split_on show ?thesis by blast
qed

text \<open>
  With \<^verbatim>\<open>/boot/efi\<close>, \<^verbatim>\<open>/boot\<close> and \<^verbatim>\<open>/\<close> yielded in this order, the loop runs over
  \<^verbatim>\<open>/boot\<close>, \<^verbatim>\<open>/\<close>, \<^verbatim>\<open>/boot/efi\<close>.
\<close>

theorem C10_mount_point_order_witness:
  "mountpts efi_boot_root = Inr [''/boot'', ''/'', ''/boot/efi''] \<and>
   sorted (map (\<lambda>x. length (split_on CHR ''/'' x)) [''/boot'', ''/'', ''/boot/efi'']) \<and>
   fst (createFileSystemRecord all_succeed [''mydisk'' \<mapsto> mydisk] False efi_boot_root False)
     = None \<and>
   dom (fsEntry (snd (createFileSystemRecord all_succeed [''mydisk'' \<mapsto> mydisk] False
      efi_boot_root False))) = set [''/boot'', ''/'', ''/boot/efi'']"
proof -
  let ?run = "createFileSystemRecord all_succeed [''mydisk'' \<mapsto> mydisk] False efi_boot_root False"
  have h1: "?run = (fst ?run, snd ?run)" by simp
  have h2: "mountpts efi_boot_root = Inr [''/boot'', ''/'', ''/boot/efi'']" by code_simp
  have r: "fst ?run = None" by code_simp
  note c = C10_mount_point_order[OF h1 h2]
  from c r have "dom (fsEntry (snd ?run)) = set [''/boot'', ''/'', ''/boot/efi'']"
    by auto
  with c[THEN conjunct1] h2 r show ?thesis by (intro conjI)
qed

end
